theory Spec2Isabelle
  imports Complex_Main "HOL-Library.Sublist"
begin

section \<open>Strings\<close>

text \<open>
  JavaScript strings are modelled as \<^typ>\<open>string\<close>, the list of the bytes of their UTF-8
  encoding. Every pattern the scrapers test for is ASCII.
\<close>

definition toLowerChar :: "char \<Rightarrow> char" where
  "toLowerChar c =
     (let n = (of_char c :: nat) in if 65 \<le> n \<and> n \<le> 90 then char_of (n + 32) else c)"

text \<open>
  \<open>String.prototype.toLowerCase\<close>, as far as its callers can tell. The letters \<open>A-Z\<close>
  become \<open>a-z\<close>. Two characters outside ASCII have a lower-case form with an ASCII letter
  in it: the Kelvin sign U+212A (bytes E2 84 AA) becomes \<open>k\<close>, and the dotted capital I
  U+0130 (bytes C4 B0) becomes \<open>i\<close> followed by the combining dot U+0307 (bytes CC 87). Any
  other character outside ASCII becomes a character outside ASCII again, and is left as it
  is here: the callers only look for ASCII patterns in the result, or replace every run of
  characters outside \<open>a-z0-9\<close> in it, so they cannot tell one such character from another.
\<close>

function toLowerCase :: "string \<Rightarrow> string" where
  "toLowerCase [] = []"
| "toLowerCase (c # cs) =
     (if c = CHR 0xE2 \<and> take 2 cs = [CHR 0x84, CHR 0xAA]
      then CHR ''k'' # toLowerCase (drop 2 cs)
      else if c = CHR 0xC4 \<and> take 1 cs = [CHR 0xB0]
      then CHR ''i'' # CHR 0xCC # CHR 0x87 # toLowerCase (drop 1 cs)
      else toLowerChar c # toLowerCase cs)"
  by pat_completeness auto
termination
  by (relation "measure length") auto

declare toLowerCase.simps [simp del]


text \<open>\<open>s.endsWith(p)\<close>, also what a regular expression anchored with \<open>$\<close> tests.\<close>

definition startsWith :: "string \<Rightarrow> string \<Rightarrow> bool" where
  "startsWith s p = prefix p s"


text \<open>\<open>s.split(", ")\<close>: the pieces of \<open>s\<close> between the occurrences of the separator.\<close>

fun splitAcc :: "string \<Rightarrow> string \<Rightarrow> string list" where
  "splitAcc acc [] = [rev acc]"
| "splitAcc acc (c # cs) =
     (if c = CHR '','' \<and> (case cs of [] \<Rightarrow> False | d # ds \<Rightarrow> d = CHR '' '')
      then rev acc # splitAcc [] (tl cs)
      else splitAcc (c # acc) cs)"

definition splitCommaSpace :: "string \<Rightarrow> string list" where
  "splitCommaSpace s = splitAcc [] s"

text \<open>\<open>s.replace(/,/g, "")\<close>.\<close>

definition removeCommas :: "string \<Rightarrow> string" where
  "removeCommas s = filter (\<lambda>c. c \<noteq> CHR '','') s"

text \<open>
  \<open>encodeURIComponent\<close>: every byte of the UTF-8 encoding is written as \<open>%XX\<close>, except
  the ASCII letters, the digits and \<open>- _ . ! ~ * ' ( )\<close>.
\<close>

definition isUnreserved :: "char \<Rightarrow> bool" where
  "isUnreserved c =
     (let n = (of_char c :: nat)
      in (65 \<le> n \<and> n \<le> 90) \<or> (97 \<le> n \<and> n \<le> 122) \<or> (48 \<le> n \<and> n \<le> 57)
         \<or> c \<in> set ''-_.!~*()'' \<or> n = 39)"

definition hexDigit :: "nat \<Rightarrow> char" where
  "hexDigit n = ''0123456789ABCDEF'' ! (n mod 16)"

definition encodeURIComponent :: "string \<Rightarrow> string" where
  "encodeURIComponent s =
     concat (map (\<lambda>c. if isUnreserved c then [c]
                       else [CHR ''%'', hexDigit ((of_char c :: nat) div 16), hexDigit (of_char c :: nat)]) s)"

section \<open>Slugs\<close>

text \<open>The character class \<open>[a-z0-9]\<close>.\<close>

definition isLowerAlnum :: "char \<Rightarrow> bool" where
  "isLowerAlnum c =
     (let n = (of_char c :: nat) in (97 \<le> n \<and> n \<le> 122) \<or> (48 \<le> n \<and> n \<le> 57))"

text \<open>
  \<open>.replace(/[^a-z0-9]+/g, "-")\<close>: the scan goes from left to right; where a character
  outside the class stands, the longest run of such characters is replaced by one \<open>-\<close>.
\<close>

function replaceNonAlnumRuns :: "string \<Rightarrow> string" where
  "replaceNonAlnumRuns [] = []"
| "replaceNonAlnumRuns (c # cs) =
     (if isLowerAlnum c then c # replaceNonAlnumRuns cs
      else CHR ''-'' # replaceNonAlnumRuns (dropWhile (\<lambda>d. \<not> isLowerAlnum d) cs))"
  by pat_completeness auto
termination
  by (relation "measure length") (auto simp: less_Suc_eq_le length_dropWhile_le)

text \<open>\<open>.replace(/(^-|-$)/g, "")\<close>: a \<open>-\<close> at the start goes, and a \<open>-\<close> at the end.\<close>

definition stripEdgeDashes :: "string \<Rightarrow> string" where
  "stripEdgeDashes s =
     (let s1 = (case s of [] \<Rightarrow> [] | c # cs \<Rightarrow> if c = CHR ''-'' then cs else c # cs)
      in if s1 \<noteq> [] \<and> last s1 = CHR ''-'' then butlast s1 else s1)"

text \<open>
  The expression that \<open>combineMovieData\<close>, \<open>combineSeriesData\<close>, \<open>combineBookData\<close> and
  \<open>combineMusicData\<close> each apply to the text the slug is made from.
\<close>

definition makeSlug :: "string \<Rightarrow> string" where
  "makeSlug text = stripEdgeDashes (replaceNonAlnumRuns (toLowerCase text))"

text \<open>
  The derivation in words: the text lower-cased, every maximal run of characters other
  than \<open>a-z\<close> and \<open>0-9\<close> collapsed to a single separator, and all separators at the start
  and at the end trimmed. A letter outside ASCII counts as a character of such a run.
  \<open>collapseRuns\<close> remembers whether the previous character was part of a run.
\<close>

fun collapseRuns :: "bool \<Rightarrow> string \<Rightarrow> string" where
  "collapseRuns inRun [] = []"
| "collapseRuns inRun (c # cs) =
     (if isLowerAlnum c then c # collapseRuns False cs
      else if inRun then collapseRuns True cs
      else CHR ''-'' # collapseRuns True cs)"

definition trimSeparators :: "string \<Rightarrow> string" where
  "trimSeparators s =
     rev (dropWhile (\<lambda>c. c = CHR ''-'') (rev (dropWhile (\<lambda>c. c = CHR ''-'') s)))"

definition spec_slug :: "string \<Rightarrow> string" where
  "spec_slug text = trimSeparators (collapseRuns False (toLowerCase text))"

text \<open>No two separators stand next to each other.\<close>

fun noDoubleDash :: "string \<Rightarrow> bool" where
  "noDoubleDash (a # b # cs) = ((a \<noteq> CHR ''-'' \<or> b \<noteq> CHR ''-'') \<and> noDoubleDash (b # cs))"
| "noDoubleDash cs = True"

section \<open>Numbers, truthiness and the runtime's library\<close>

text \<open>A JavaScript number: a finite value or \<open>NaN\<close>.\<close>

datatype jsnum = Num rat | NaN

text \<open>
  What \<open>x ? a : b\<close> and \<open>x || y\<close> test. A missing field is \<open>None\<close>; the empty string, zero
  and \<open>NaN\<close> are falsy as well. An array is truthy even when empty.
\<close>

definition truthyStr :: "string option \<Rightarrow> bool" where
  "truthyStr s = (s \<noteq> None \<and> s \<noteq> Some [])"

definition truthyNum :: "jsnum option \<Rightarrow> bool" where
  "truthyNum n = (n \<noteq> None \<and> n \<noteq> Some (Num 0) \<and> n \<noteq> Some NaN)"

definition orStr :: "string option \<Rightarrow> string option \<Rightarrow> string option" where
  "orStr a b = (if truthyStr a then a else b)"

definition orNum :: "jsnum option \<Rightarrow> jsnum option \<Rightarrow> jsnum option" where
  "orNum a b = (if truthyNum a then a else b)"

text \<open>
  The library functions the merge step calls on provider values. They are parameters of
  the model: \<open>Number.parseInt\<close>, \<open>Number.parseFloat\<close>, \<open>Number.prototype.toLocaleString\<close>,
  \<open>toString\<close> on a number (also what a template literal prints), \<open>new Date(s).getFullYear()\<close>
  on a date given as text, the year of the clock, \<open>new Date().getFullYear()\<close>, and, since
  both count in UTF-16 code units, \<open>String.prototype.substring\<close> and the \<open>length\<close> of a
  string.
\<close>

record Host =
  parseInt :: "string \<Rightarrow> jsnum"
  parseFloat :: "string \<Rightarrow> jsnum"
  toLocaleString :: "jsnum \<Rightarrow> string"
  toString :: "jsnum \<Rightarrow> string"
  getFullYear :: "string \<Rightarrow> jsnum"
  currentYear :: jsnum
  substring :: "string \<Rightarrow> nat \<Rightarrow> nat \<Rightarrow> string"
  lengthOf :: "string \<Rightarrow> nat"

text \<open>
  \<open>Math.floor\<close>, \<open>Math.round\<close>, and \<open>/\<close> and \<open>%\<close> by a constant other than zero (the
  remainder has the sign of the dividend), and \<open>x > c\<close> for a constant \<open>c\<close>, which is false
  when \<open>x\<close> is missing, \<open>null\<close> or \<open>NaN\<close>.
\<close>

fun mathFloor :: "jsnum \<Rightarrow> jsnum" where
  "mathFloor (Num r) = Num (of_int \<lfloor>r\<rfloor>)"
| "mathFloor NaN = NaN"

fun mathRound :: "jsnum \<Rightarrow> jsnum" where
  "mathRound (Num r) = Num (of_int \<lfloor>r + 1 / 2\<rfloor>)"
| "mathRound NaN = NaN"

fun dividedBy :: "jsnum \<Rightarrow> rat \<Rightarrow> jsnum" where
  "dividedBy (Num r) d = Num (r / d)"
| "dividedBy NaN d = NaN"

fun remainderBy :: "jsnum \<Rightarrow> rat \<Rightarrow> jsnum" where
  "remainderBy (Num r) d =
     Num (r - d * of_int (if r / d < 0 then \<lceil>r / d\<rceil> else \<lfloor>r / d\<rfloor>))"
| "remainderBy NaN d = NaN"

fun exceeds :: "jsnum option \<Rightarrow> rat \<Rightarrow> bool" where
  "exceeds (Some (Num r)) c = (r > c)"
| "exceeds n c = False"

section \<open>Provider payloads\<close>

text \<open>
  The JSON the providers answer with, reduced to the fields the merge step reads. A field
  the code guards with \<open>?.\<close>, \<open>||\<close> or a conditional is optional; an object that is
  missing as a whole is the record with every field absent.
\<close>

record TmdbNamed =
  name :: string
  id' :: "jsnum option"

record TmdbLanguage =
  english_name :: string

record TmdbCrew =
  job :: string
  name :: string
  id' :: "jsnum option"

record TmdbCast =
  name :: string
  id' :: "jsnum option"
  character :: string

record TmdbVideo =
  type :: string
  key :: string
  iso_639_1 :: "string option"

record TmdbDetails =
  poster_path :: "string option"
  certification :: "string option"
  release_date :: "string option"
  runtime :: "jsnum option"
  genres :: "TmdbNamed list option"
  overview :: "string option"
  spoken_languages :: "TmdbLanguage list option"
  production_countries :: "TmdbNamed list option"
  budget :: "jsnum option"
  revenue :: "jsnum option"
  production_companies :: "TmdbNamed list option"
  id' :: "jsnum option"

record TmdbCredits =
  crew :: "TmdbCrew list option"
  cast :: "TmdbCast list option"

record TmdbVideos =
  results :: "TmdbVideo list option"

record TmdbData =
  details :: TmdbDetails
  credits :: TmdbCredits
  videos :: TmdbVideos

record OmdbRating =
  Source :: string
  Value :: string

record OmdbData =
  Response :: "string option"
  Rated :: "string option"
  Released :: "string option"
  Runtime :: "string option"
  Genre :: "string option"
  Director :: "string option"
  Writer :: "string option"
  Actors :: "string option"
  Plot :: "string option"
  Language :: "string option"
  Country :: "string option"
  imdbRating :: "string option"
  imdbVotes :: "string option"
  Ratings :: "OmdbRating list option"
  BoxOffice :: "string option"
  imdbID :: "string option"

record ContentRating =
  iso_3166_1 :: string
  rating :: "string option"

record ContentRatings =
  results :: "ContentRating list option"

record Network =
  name :: string
  id' :: "jsnum option"
  logo_path :: "string option"
  origin_country :: "string option"

record TmdbSeriesDetails =
  first_air_date :: "string option"
  content_ratings :: "ContentRatings option"
  overview :: "string option"
  episode_run_time :: "jsnum list option"
  type :: "string option"
  genres :: "TmdbNamed list option"
  languages :: "string list option"
  production_countries :: "TmdbNamed list option"
  number_of_seasons :: "jsnum option"
  number_of_episodes :: "jsnum option"
  status :: "string option"
  created_by :: "TmdbNamed list option"
  production_companies :: "TmdbNamed list option"
  networks :: "Network list option"
  vote_average :: "jsnum option"
  vote_count :: "jsnum option"
  poster_path :: "string option"
  id' :: "jsnum option"

record TmdbSeriesData =
  details :: TmdbSeriesDetails
  credits :: TmdbCredits

record IndustryIdentifier =
  type :: string
  identifier' :: "string option"

record VolumeInfo =
  authors :: "string list option"
  industryIdentifiers :: "IndustryIdentifier list option"
  publishedDate :: "string option"
  publisher :: "string option"
  categories :: "string list option"
  language :: "string option"
  pageCount :: "jsnum option"
  description :: "string option"
  averageRating :: "jsnum option"
  ratingsCount :: "jsnum option"

record GoogleVolume =
  id' :: "string option"
  volumeInfo :: "VolumeInfo option"

text \<open>What \<open>getGoodreadsData\<close> resolves to; its \<open>rating\<close> and \<open>reviews\<close> are always \<open>null\<close>.\<close>

record GoodreadsData =
  searchUrl :: string

record SpotifyArtistRef =
  name :: string
  id' :: "string option"

record SpotifyImage =
  url' :: string

record SpotifyTrackAlbum =
  name :: string
  release_date :: "string option"
  images :: "SpotifyImage list option"
  id' :: "string option"
  label :: "string option"
  total_tracks :: "jsnum option"
  album_type :: "string option"

record ExternalIds =
  isrc :: "string option"

record SpotifyTrack =
  id' :: "string option"
  artists :: "SpotifyArtistRef list option"
  album :: "SpotifyTrackAlbum option"
  duration_ms :: "jsnum option"
  popularity :: "jsnum option"
  external_ids :: "ExternalIds option"

text \<open>
  The \<open>key\<close> of the audio features is tested with \<open>!== undefined\<close>, which tells a field
  that is \<open>null\<close> from one that is missing.
\<close>

datatype KeyValue = KeyNull | KeyNumber jsnum

record AudioFeatures =
  valence :: "jsnum option"
  tempo :: "jsnum option"
  key :: "KeyValue option"
  energy :: "jsnum option"
  danceability :: "jsnum option"
  acousticness :: "jsnum option"
  instrumentalness :: "jsnum option"
  liveness :: "jsnum option"
  speechiness :: "jsnum option"

record Followers =
  total :: "jsnum option"

record SpotifyArtist =
  id' :: "string option"
  genres :: "string list option"
  popularity :: "jsnum option"
  followers :: "Followers option"
  images :: "SpotifyImage list option"

record SpotifyCopyright =
  type :: string
  text' :: string

record SpotifyAlbum =
  label :: "string option"
  total_tracks :: "jsnum option"
  album_type :: "string option"
  copyrights :: "SpotifyCopyright list option"

record SpotifyData =
  track :: SpotifyTrack
  audioFeatures :: "AudioFeatures option"
  artist :: "SpotifyArtist option"
  album :: "SpotifyAlbum option"

section \<open>Requests\<close>

record MovieRequest =
  title :: string
  year :: jsnum
  director :: "string option"
  cast :: "string list option"
  genre :: "string option"

record SeriesRequest =
  title :: string
  year :: "jsnum option"
  creator :: "string option"
  network :: "string option"
  genre :: "string option"

record MusicRequest =
  title :: string
  artist :: string
  year :: "jsnum option"
  album :: "string option"
  genre :: "string option"

record BookRequest =
  title :: string
  author :: "string option"
  year :: "jsnum option"
  isbn :: "string option"
  genre :: "string option"

section \<open>Availability offers\<close>

datatype OfferType = Free | Subscription | Rent | Buy

record StreamingPlatform =
  platform :: string
  link :: string
  type :: "OfferType option"
  price :: "string option"

record AvailabilitySet =
  streaming :: "StreamingPlatform list"
  purchase :: "StreamingPlatform list"

text \<open>How a template literal prints the optional \<open>type\<close> field.\<close>

fun typeString :: "OfferType option \<Rightarrow> string" where
  "typeString None = ''undefined''"
| "typeString (Some Free) = ''free''"
| "typeString (Some Subscription) = ''subscription''"
| "typeString (Some Rent) = ''rent''"
| "typeString (Some Buy) = ''buy''"

text \<open>The key of \<open>removeDuplicatePlatforms\<close>: \<open>`${platform.platform}-${platform.type}`\<close>.\<close>

definition platformKey :: "StreamingPlatform \<Rightarrow> string" where
  "platformKey p = platform p @ ''-'' @ typeString (type p)"

text \<open>
  The callback of \<open>platforms.filter\<close>, run over the list from left to right with the set
  \<open>seen\<close> it mutates.
\<close>

fun filterSeen :: "string set \<Rightarrow> StreamingPlatform list \<Rightarrow> StreamingPlatform list" where
  "filterSeen seen [] = []"
| "filterSeen seen (p # ps) =
     (let key = platformKey p
      in if key \<in> seen then filterSeen seen ps else p # filterSeen (insert key seen) ps)"

text \<open>\<open>MovieScraper.removeDuplicatePlatforms\<close>.\<close>

definition removeDuplicatePlatforms :: "StreamingPlatform list \<Rightarrow> StreamingPlatform list" where
  "removeDuplicatePlatforms platforms = filterSeen {} platforms"

text \<open>\<open>SeriesScraper.removeDuplicatePlatforms\<close>, the same text in the other class.\<close>

definition series_removeDuplicatePlatforms ::
  "StreamingPlatform list \<Rightarrow> StreamingPlatform list" where
  "series_removeDuplicatePlatforms platforms = filterSeen {} platforms"

text \<open>Two offers have the same identity when platform name and offer kind agree.\<close>

definition sameOffer :: "StreamingPlatform \<Rightarrow> StreamingPlatform \<Rightarrow> bool" where
  "sameOffer p q = (platform q = platform p \<and> type q = type p)"

text \<open>The offers of the specification's example, and a third whose name differs in case only.\<close>

definition offerNetflixA :: StreamingPlatform where
  "offerNetflixA = \<lparr>platform = ''Netflix'', link = ''A'', type = Some Subscription, price = None\<rparr>"

definition offerNetflixB :: StreamingPlatform where
  "offerNetflixB = \<lparr>platform = ''Netflix'', link = ''B'', type = Some Subscription, price = None\<rparr>"

definition offerNETFLIX :: StreamingPlatform where
  "offerNETFLIX = \<lparr>platform = ''NETFLIX'', link = ''B'', type = Some Subscription, price = None\<rparr>"

section \<open>Link validation\<close>









section \<open>Retry and proxy layer\<close>

text \<open>The two mutable fields of \<open>MovieScraper\<close> that \<open>getNextProxy\<close> reads and writes.\<close>

record ProxyState =
  proxyList :: "string list"
  currentProxyIndex :: nat

text \<open>
  \<open>MovieScraper.getNextProxy\<close>. Reading \<open>proxyList[currentProxyIndex]\<close> beyond the end of
  the array gives \<open>undefined\<close>, which the caller treats like \<open>null\<close>.
\<close>

definition getNextProxy :: "ProxyState \<Rightarrow> string option \<times> ProxyState" where
  "getNextProxy st =
     (if length (proxyList st) = 0 then (None, st)
      else
        (if currentProxyIndex st < length (proxyList st)
         then Some (proxyList st ! currentProxyIndex st) else None,
         st\<lparr>currentProxyIndex := (currentProxyIndex st + 1) mod length (proxyList st)\<rparr>))"

text \<open>
  What \<open>makeProxyRequest\<close> does that the outside can see: it fires a request (on attempt
  \<open>k\<close>, through a proxy or directly) and it sleeps for a number of milliseconds.
\<close>

datatype RequestEvent = Fire nat "string option" | Wait nat

definition maxRetries :: nat where
  "maxRetries = 3"

text \<open>
  The proxy put into \<open>requestConfig\<close>: the guard is \<open>proxy && attempt > 0\<close>, and an empty
  string is falsy.
\<close>

definition proxyForAttempt :: "string option \<Rightarrow> nat \<Rightarrow> string option" where
  "proxyForAttempt proxy attempt =
     (if proxy \<noteq> None \<and> proxy \<noteq> Some [] \<and> attempt > 0 then proxy else None)"

text \<open>
  The \<open>for\<close> loop of \<open>makeProxyRequest\<close>. The network is the parameter \<open>get\<close>: the outcome
  of \<open>axios.get\<close> on attempt \<open>k\<close> through the given proxy, \<open>Inl\<close> an error, \<open>Inr\<close> the response.
  The result is the response or the thrown \<open>lastError\<close>, the events in order, and the proxy
  state afterwards.
\<close>

function retryLoop ::
  "(nat \<Rightarrow> string option \<Rightarrow> 'e + 'r) \<Rightarrow> nat \<Rightarrow> 'e option \<Rightarrow> ProxyState
     \<Rightarrow> ('e option + 'r) \<times> RequestEvent list \<times> ProxyState" where
  "retryLoop get attempt lastError st =
     (if attempt < maxRetries then
        (case getNextProxy st of
           (proxy, st1) \<Rightarrow>
             (case get attempt (proxyForAttempt proxy attempt) of
                Inr response \<Rightarrow> (Inr response, [Fire attempt (proxyForAttempt proxy attempt)], st1)
              | Inl error \<Rightarrow>
                  (case retryLoop get (attempt + 1) (Some error) st1 of
                     (res, evs, st2) \<Rightarrow>
                       (res,
                        Fire attempt (proxyForAttempt proxy attempt)
                          # (if attempt < maxRetries - 1 then [Wait (2000 * (attempt + 1))] else [])
                          @ evs,
                        st2))))
      else (Inl lastError, [], st))"
  by pat_completeness auto
termination
  by (relation "measure (\<lambda>(get, attempt, lastError, st). maxRetries - attempt)") auto

declare retryLoop.simps [simp del]

definition makeProxyRequest ::
  "(nat \<Rightarrow> string option \<Rightarrow> 'e + 'r) \<Rightarrow> ProxyState
     \<Rightarrow> ('e option + 'r) \<times> RequestEvent list \<times> ProxyState" where
  "makeProxyRequest get st = retryLoop get 0 None st"

text \<open>The proxies that requests really went through, in order.\<close>

fun proxiesUsed :: "RequestEvent list \<Rightarrow> string list" where
  "proxiesUsed [] = []"
| "proxiesUsed (Fire k (Some p) # evs) = p # proxiesUsed evs"
| "proxiesUsed (ev # evs) = proxiesUsed evs"

text \<open>
  \<open>n\<close> wrapped calls one after the other on the same scraper, as the region loop makes
  them: the events of all calls and the proxy state at the end.
\<close>

fun consecutiveCalls ::
  "nat \<Rightarrow> (nat \<Rightarrow> string option \<Rightarrow> 'e + 'r) \<Rightarrow> ProxyState \<Rightarrow> RequestEvent list \<times> ProxyState" where
  "consecutiveCalls 0 get st = ([], st)"
| "consecutiveCalls (Suc n) get st =
     (case makeProxyRequest get st of
        (res, evs, st1) \<Rightarrow>
          (case consecutiveCalls n get st1 of (evs', st2) \<Rightarrow> (evs @ evs', st2)))"

text \<open>A pool of three proxies with the cursor at its start, and a network that is down.\<close>

definition poolOfThree :: ProxyState where
  "poolOfThree = \<lparr>proxyList = [''10.0.0.1:80'', ''10.0.0.2:80'', ''10.0.0.3:80''], currentProxyIndex = 0\<rparr>"

definition networkDown :: "nat \<Rightarrow> string option \<Rightarrow> string + unit" where
  "networkDown attempt proxy = Inl ''ECONNREFUSED''"

section \<open>Region iterator\<close>

text \<open>
  An element of the array that \<open>Promise.allSettled\<close> resolves to. The reason of a rejection
  is only ever logged.
\<close>

datatype 'a settled = Fulfilled 'a | Rejected string

text \<open>
  What the two availability providers of one region settled to. Both
  \<open>getTMDBWatchProvidersForRegion\<close> and \<open>scrapeJustWatchForRegion\<close> catch what their own
  calls throw and resolve to an object \<open>{streaming, purchase}\<close> of two arrays, empty when
  nothing was found.
\<close>

record RegionProviders =
  tmdbWatchData :: "AvailabilitySet settled"
  justWatchData :: "AvailabilitySet settled"

datatype RegionEvent = Query string | Sleep nat

definition emptyAvailability :: AvailabilitySet where
  "emptyAvailability = \<lparr>streaming = [], purchase = []\<rparr>"

text \<open>
  One \<open>if (x.status === "fulfilled") { streaming.push(...); purchase.push(...) }\<close> block
  of the \<open>try\<close> body, on the two local arrays.
\<close>

fun mergeSettled :: "AvailabilitySet settled \<Rightarrow> AvailabilitySet \<Rightarrow> AvailabilitySet" where
  "mergeSettled (Rejected reason) acc = acc"
| "mergeSettled (Fulfilled v) acc =
     \<lparr>streaming = streaming acc @ streaming v, purchase = purchase acc @ purchase v\<rparr>"

text \<open>
  The body of the \<open>for\<close> loop of \<open>MovieScraper.getStreamingAvailability\<close> for one region:
  the entry stored in \<open>result[region]\<close> and the pacing delay awaited after it. On two
  settled results of this shape no statement of the \<open>try\<close> block raises, so the \<open>catch\<close>
  block, which would store the two local arrays as they are, is not entered.
\<close>

definition processRegion :: "RegionProviders \<Rightarrow> AvailabilitySet \<times> RegionEvent list" where
  "processRegion rp =
     (let acc1 = mergeSettled (tmdbWatchData rp) emptyAvailability;
          acc2 = mergeSettled (justWatchData rp) acc1
      in (\<lparr>streaming = removeDuplicatePlatforms (streaming acc2),
            purchase = removeDuplicatePlatforms (purchase acc2)\<rparr>,
          [Sleep 1000]))"

text \<open>
  \<open>result[region] = entry\<close> on an object whose keys are not array indices: an existing key
  keeps its place, a new key goes last.
\<close>

fun setProperty :: "(string \<times> 'v) list \<Rightarrow> string \<Rightarrow> 'v \<Rightarrow> (string \<times> 'v) list" where
  "setProperty [] k v = [(k, v)]"
| "setProperty ((k', v') # kvs) k v =
     (if k' = k then (k, v) # kvs else (k', v') # setProperty kvs k v)"

definition regions :: "string list" where
  "regions = [''US'', ''IN'', ''GB'', ''CA'', ''AU'', ''DE'', ''FR'', ''JP'', ''BR'', ''MX'']"

text \<open>
  The loop over the regions, with the object \<open>result\<close> and the events so far. Each
  iteration awaits its two provider calls, and its delay, before the next one starts.
\<close>

fun regionLoop ::
  "(string \<Rightarrow> RegionProviders) \<Rightarrow> string list \<Rightarrow> (string \<times> AvailabilitySet) list
     \<Rightarrow> RegionEvent list \<Rightarrow> (string \<times> AvailabilitySet) list \<times> RegionEvent list" where
  "regionLoop providers [] result evs = (result, evs)"
| "regionLoop providers (region # rest) result evs =
     (case processRegion (providers region) of
        (entry, evs') \<Rightarrow>
          regionLoop providers rest (setProperty result region entry) (evs @ Query region # evs'))"

text \<open>\<open>MovieScraper.getStreamingAvailability\<close>.\<close>

definition getStreamingAvailability ::
  "(string \<Rightarrow> RegionProviders) \<Rightarrow> (string \<times> AvailabilitySet) list \<times> RegionEvent list" where
  "getStreamingAvailability providers = regionLoop providers regions [] []"



section \<open>Canonical records\<close>

record Image =
  url :: string
  publicId :: string

record PersonRef =
  name :: string
  tmdbId :: "string option"

record CastEntry =
  person :: PersonRef
  character :: string

record Rating =
  score :: jsnum
  votes :: "jsnum option"

record MovieRatings =
  imdb :: "Rating option"
  rottenTomatoes :: "Rating option"
  metacritic :: "Rating option"

record MovieBoxOffice =
  budget :: "string option"
  grossUSA :: "string option"
  grossWorldwide :: "string option"

record MovieProduction =
  companies :: "PersonRef list"
  studios :: "PersonRef list"
  distributors :: "PersonRef list"

record Trailer =
  url :: string
  language :: string

record References =
  imdbId :: "string option"
  tmdbId :: "string option"

text \<open>
  What \<open>combineMovieData\<close> puts into \<open>availableOn\<close>: the value of the settled availability
  promise, which is the object keyed by region that \<open>getStreamingAvailability\<close> builds, or,
  for a rejected promise, the literal \<open>{ streaming: [], purchase: [] }\<close>.
\<close>

datatype AvailableOn = RegionMap "(string \<times> AvailabilitySet) list" | FlatSet AvailabilitySet

text \<open>The value of a property read on \<open>availableOn\<close>.\<close>

datatype PropertyValue = Undefined | OfferList "StreamingPlatform list" | SetObject AvailabilitySet

text \<open>\<open>record.availableOn.streaming\<close>.\<close>

fun availableOn_streaming :: "AvailableOn \<Rightarrow> PropertyValue" where
  "availableOn_streaming (FlatSet a) = OfferList (streaming a)"
| "availableOn_streaming (RegionMap m) =
     (case map_of m ''streaming'' of None \<Rightarrow> Undefined | Some a \<Rightarrow> SetObject a)"

record MovieResponse =
  title :: string
  year :: jsnum
  slug :: string
  poster :: "Image option"
  rated :: "string option"
  released :: "string option"
  runtime :: "jsnum option"
  genres :: "string list"
  director :: "PersonRef list"
  writers :: "PersonRef list"
  cast :: "CastEntry list"
  plot :: "string option"
  language :: "string list"
  country :: "string list"
  ratings :: MovieRatings
  boxOffice :: MovieBoxOffice
  production :: MovieProduction
  trailer :: "Trailer option"
  availableOn :: AvailableOn
  references :: References

section \<open>Movie merge\<close>

definition personOfCrew :: "Host \<Rightarrow> TmdbCrew \<Rightarrow> PersonRef" where
  "personOfCrew h c =
     \<lparr>PersonRef.name = TmdbCrew.name c, tmdbId = map_option (toString h) (TmdbCrew.id' c)\<rparr>"

definition personOfNamed :: "Host \<Rightarrow> TmdbNamed \<Rightarrow> PersonRef" where
  "personOfNamed h c =
     \<lparr>PersonRef.name = TmdbNamed.name c, tmdbId = map_option (toString h) (TmdbNamed.id' c)\<rparr>"

definition personOfName :: "string \<Rightarrow> PersonRef" where
  "personOfName n = \<lparr>PersonRef.name = n, tmdbId = None\<rparr>"

definition castOfTmdb :: "Host \<Rightarrow> TmdbCast \<Rightarrow> CastEntry" where
  "castOfTmdb h c =
     \<lparr>person = \<lparr>PersonRef.name = TmdbCast.name c, tmdbId = map_option (toString h) (TmdbCast.id' c)\<rparr>,
      CastEntry.character = TmdbCast.character c\<rparr>"

text \<open>
  \<open>MovieScraper.combineMovieData\<close>. \<open>tmdbData\<close>, \<open>omdbData\<close> and \<open>streamingData\<close> are its
  first three constants; every field of the object literal follows, in the order of the
  source.
\<close>

definition combineMovieData ::
  "Host \<Rightarrow> MovieRequest \<Rightarrow> TmdbData option settled \<Rightarrow> OmdbData option settled
     \<Rightarrow> (string \<times> AvailabilitySet) list settled \<Rightarrow> MovieResponse" where
  "combineMovieData h request tmdbResult omdbResult streamingResult =
     (let tmdbData = (case tmdbResult of Fulfilled v \<Rightarrow> v | Rejected reason \<Rightarrow> None);
          omdbData = (case omdbResult of Fulfilled v \<Rightarrow> v | Rejected reason \<Rightarrow> None);
          streamingData =
            (case streamingResult of
               Fulfilled v \<Rightarrow> RegionMap v
             | Rejected reason \<Rightarrow> FlatSet \<lparr>streaming = [], purchase = []\<rparr>);
          tmdbDetails = map_option TmdbData.details tmdbData;
          tmdbCredits = map_option TmdbData.credits tmdbData;
          trailerVideo =
            Option.bind (Option.bind tmdbData (\<lambda>d. TmdbVideos.results (videos d)))
              (List.find (\<lambda>v. TmdbVideo.type v = ''Trailer''));
          omdbRatings = Option.bind omdbData Ratings;
          slug = makeSlug (MovieRequest.title request)
      in \<lparr>MovieResponse.title = MovieRequest.title request,
          MovieResponse.year = MovieRequest.year request,
          MovieResponse.slug = slug,
          poster =
            (case Option.bind tmdbDetails TmdbDetails.poster_path of
               None \<Rightarrow> None
             | Some p \<Rightarrow>
                 if p = [] then None
                 else Some \<lparr>Image.url = ''https://image.tmdb.org/t/p/w500'' @ p, publicId = p\<rparr>),
          rated = orStr (Option.bind omdbData Rated) (Option.bind tmdbDetails certification),
          released = orStr (Option.bind tmdbDetails TmdbDetails.release_date) (Option.bind omdbData Released),
          MovieResponse.runtime =
            orNum (Option.bind tmdbDetails TmdbDetails.runtime)
              (case Option.bind omdbData Runtime of
                 None \<Rightarrow> None
               | Some r \<Rightarrow> if r = [] then None else Some (parseInt h r)),
          MovieResponse.genres =
            (case Option.bind tmdbDetails TmdbDetails.genres of
               Some gs \<Rightarrow> map TmdbNamed.name gs
             | None \<Rightarrow>
                 (case Option.bind omdbData Genre of
                    Some g \<Rightarrow> splitCommaSpace g
                  | None \<Rightarrow> [])),
          MovieResponse.director =
            (case Option.bind tmdbCredits crew of
               Some cs \<Rightarrow> map (personOfCrew h) (filter (\<lambda>c. job c = ''Director'') cs)
             | None \<Rightarrow>
                 (case Option.bind omdbData Director of
                    Some d \<Rightarrow> map personOfName (splitCommaSpace d)
                  | None \<Rightarrow> [])),
          writers =
            (case Option.bind tmdbCredits crew of
               Some cs \<Rightarrow>
                 map (personOfCrew h) (filter (\<lambda>c. job c = ''Writer'' \<or> job c = ''Screenplay'') cs)
             | None \<Rightarrow>
                 (case Option.bind omdbData Writer of
                    Some w \<Rightarrow> map personOfName (splitCommaSpace w)
                  | None \<Rightarrow> [])),
          MovieResponse.cast =
            (case Option.bind tmdbCredits TmdbCredits.cast of
               Some cs \<Rightarrow> map (castOfTmdb h) (take 20 cs)
             | None \<Rightarrow>
                 (case Option.bind omdbData Actors of
                    Some a \<Rightarrow>
                      map (\<lambda>n. \<lparr>person = personOfName n, CastEntry.character = []\<rparr>) (splitCommaSpace a)
                  | None \<Rightarrow> [])),
          plot = orStr (Option.bind tmdbDetails TmdbDetails.overview) (Option.bind omdbData Plot),
          MovieResponse.language =
            (case Option.bind tmdbDetails spoken_languages of
               Some ls \<Rightarrow> map english_name ls
             | None \<Rightarrow>
                 (case Option.bind omdbData Language of
                    Some l \<Rightarrow> splitCommaSpace l
                  | None \<Rightarrow> [])),
          country =
            (case Option.bind tmdbDetails TmdbDetails.production_countries of
               Some cs \<Rightarrow> map TmdbNamed.name cs
             | None \<Rightarrow>
                 (case Option.bind omdbData Country of
                    Some c \<Rightarrow> splitCommaSpace c
                  | None \<Rightarrow> [])),
          ratings =
            \<lparr>imdb =
               (case Option.bind omdbData imdbRating of
                  None \<Rightarrow> None
                | Some r \<Rightarrow>
                    if r = [] then None
                    else Some
                      \<lparr>score = parseFloat h r,
                       votes = Some (parseInt h
                         (case Option.bind omdbData imdbVotes of
                            None \<Rightarrow> ''0''
                          | Some v \<Rightarrow> if removeCommas v = [] then ''0'' else removeCommas v))\<rparr>),
             rottenTomatoes =
               (case Option.bind omdbRatings (List.find (\<lambda>r. Source r = ''Rotten Tomatoes'')) of
                  None \<Rightarrow> None
                | Some r \<Rightarrow> Some \<lparr>score = parseInt h (Value r), votes = None\<rparr>),
             metacritic =
               (case Option.bind omdbRatings (List.find (\<lambda>r. Source r = ''Metacritic'')) of
                  None \<Rightarrow> None
                | Some r \<Rightarrow> Some \<lparr>score = parseInt h (Value r), votes = None\<rparr>)\<rparr>,
          boxOffice =
            \<lparr>budget =
               (case Option.bind tmdbDetails TmdbDetails.budget of
                  None \<Rightarrow> None
                | Some b \<Rightarrow> if truthyNum (Some b) then Some (''$'' @ toLocaleString h b) else None),
             grossUSA = Option.bind omdbData BoxOffice,
             grossWorldwide =
               (case Option.bind tmdbDetails revenue of
                  None \<Rightarrow> None
                | Some r \<Rightarrow> if truthyNum (Some r) then Some (''$'' @ toLocaleString h r) else None)\<rparr>,
          production =
            \<lparr>companies =
               (case Option.bind tmdbDetails TmdbDetails.production_companies of
                  Some cs \<Rightarrow> map (personOfNamed h) cs
                | None \<Rightarrow> []),
             studios = [],
             distributors = []\<rparr>,
          trailer =
            (case trailerVideo of
               None \<Rightarrow> None
             | Some v \<Rightarrow>
                 Some \<lparr>Trailer.url = ''https://www.youtube.com/watch?v='' @ TmdbVideo.key v,
                       Trailer.language =
                         (case iso_639_1 v of None \<Rightarrow> ''en'' | Some l \<Rightarrow> if l = [] then ''en'' else l)\<rparr>),
          availableOn = streamingData,
          references =
            \<lparr>imdbId = Option.bind omdbData imdbID,
             References.tmdbId = map_option (toString h) (Option.bind tmdbDetails TmdbDetails.id')\<rparr>\<rparr>)"

text \<open>
  The providers of one movie request. \<open>tmdbSearch\<close> is the outcome of the search call (an
  error, or the ids of the results), \<open>tmdbMovie\<close> that of the \<open>Promise.all\<close> over the four
  detail calls, \<open>omdbLookup\<close> that of the OMDB call.
\<close>

record MovieProviders =
  tmdbApiKey :: string
  omdbApiKey :: string
  tmdbSearch :: "string + jsnum list"
  tmdbMovie :: "string + TmdbData"
  omdbLookup :: "string + OmdbData"
  regionProviders :: "string \<Rightarrow> RegionProviders"

text \<open>\<open>MovieScraper.getTMDBData\<close>: \<open>null\<close> without a key, on any error, and on no result.\<close>

definition getTMDBData :: "MovieProviders \<Rightarrow> TmdbData option" where
  "getTMDBData p =
     (if tmdbApiKey p = [] then None
      else case tmdbSearch p of
             Inl error \<Rightarrow> None
           | Inr [] \<Rightarrow> None
           | Inr (movieId # others) \<Rightarrow>
               (case tmdbMovie p of Inl error \<Rightarrow> None | Inr d \<Rightarrow> Some d))"

text \<open>\<open>MovieScraper.getOMDBData\<close>.\<close>

definition getOMDBData :: "MovieProviders \<Rightarrow> OmdbData option" where
  "getOMDBData p =
     (if omdbApiKey p = [] then None
      else case omdbLookup p of
             Inl error \<Rightarrow> None
           | Inr d \<Rightarrow> if Response d = Some ''True'' then Some d else None)"

text \<open>
  \<open>MovieScraper.scrapeMovieData\<close>. None of the three promises can be rejected, since each
  of the three methods catches what its calls throw; \<open>Inl\<close> is the error that the \<open>catch\<close>
  block of \<open>scrapeMovieData\<close> would throw, \<open>Inr\<close> the record returned.
\<close>

definition scrapeMovieData :: "Host \<Rightarrow> MovieProviders \<Rightarrow> MovieRequest \<Rightarrow> string + MovieResponse" where
  "scrapeMovieData h p request =
     Inr (combineMovieData h request
            (Fulfilled (getTMDBData p))
            (Fulfilled (getOMDBData p))
            (Fulfilled (fst (getStreamingAvailability (regionProviders p)))))"

text \<open>
  The optional fields of \<open>MovieResponse\<close>: the top-level ones marked \<open>?\<close> in the type,
  and the optional members of \<open>ratings\<close>, \<open>boxOffice\<close> and \<open>references\<close>. \<open>boxOffice\<close>
  itself is always written, as an object of three optional members.
\<close>

definition movieOptionalFields ::
  "MovieResponse \<Rightarrow>
     Image option \<times> string option \<times> string option \<times> jsnum option \<times> string option
     \<times> Rating option \<times> Rating option \<times> Rating option
     \<times> string option \<times> string option \<times> string option
     \<times> Trailer option \<times> string option \<times> string option" where
  "movieOptionalFields r =
     (poster r, rated r, released r, MovieResponse.runtime r, plot r,
      imdb (ratings r), rottenTomatoes (ratings r), metacritic (ratings r),
      budget (boxOffice r), grossUSA (boxOffice r), grossWorldwide (boxOffice r),
      trailer r, imdbId (references r), References.tmdbId (references r))"

text \<open>The offers that the providers of a region supplied.\<close>

definition supplied :: "AvailabilitySet settled \<Rightarrow> AvailabilitySet" where
  "supplied s = (case s of Fulfilled v \<Rightarrow> v | Rejected reason \<Rightarrow> emptyAvailability)"

text \<open>The example of the specification, and providers that all fail.\<close>

definition theMatrix :: MovieRequest where
  "theMatrix =
     \<lparr>MovieRequest.title = ''The Matrix'', MovieRequest.year = Num 1999,
      MovieRequest.director = None, MovieRequest.cast = None, MovieRequest.genre = None\<rparr>"

definition movieProvidersDown :: MovieProviders where
  "movieProvidersDown =
     \<lparr>tmdbApiKey = ''k1'', omdbApiKey = ''k2'',
      tmdbSearch = Inr [],
      tmdbMovie = Inl ''ECONNREFUSED'',
      omdbLookup = Inl ''ECONNREFUSED'',
      regionProviders =
        (\<lambda>region. \<lparr>tmdbWatchData = Fulfilled \<lparr>streaming = [], purchase = []\<rparr>,
                    justWatchData = Rejected ''ECONNREFUSED''\<rparr>)\<rparr>"

section \<open>Series merge\<close>

record SeriesRatings =
  imdb :: "Rating option"
  rottenTomatoes :: "Rating option"
  metacritic :: "Rating option"
  tmdb :: "Rating option"

record SeriesProduction =
  companies :: "PersonRef list"
  networks :: "Network list"
  studios :: "PersonRef list"
  distributors :: "PersonRef list"

record SeriesResponse =
  title :: string
  year :: "jsnum option"
  slug :: string
  rated :: "string option"
  released :: "string option"
  plot :: "string option"
  runtime :: "jsnum list option"
  seriesType :: "string option"
  genres :: "string list"
  language :: "string list"
  country :: "string list"
  seasons :: "jsnum option"
  episodes :: "jsnum option"
  status :: "string option"
  creators :: "PersonRef list"
  cast :: "CastEntry list"
  production :: SeriesProduction
  ratings :: SeriesRatings
  poster :: "Image option"
  availableOn :: AvailabilitySet
  references :: References

text \<open>\<open>SeriesScraper.getFallbackStreamingPlatforms\<close> and \<open>getFallbackPurchasePlatforms\<close>.\<close>

definition series_getFallbackStreamingPlatforms :: "string \<Rightarrow> StreamingPlatform list" where
  "series_getFallbackStreamingPlatforms t =
     [\<lparr>platform = ''Netflix'',
       link = ''https://www.netflix.com/search?q='' @ encodeURIComponent t,
       type = Some Subscription, price = None\<rparr>,
      \<lparr>platform = ''Amazon Prime Video'',
       link = ''https://www.amazon.com/s?k='' @ encodeURIComponent t @ ''&i=instant-video'',
       type = Some Subscription, price = None\<rparr>,
      \<lparr>platform = ''Hulu'',
       link = ''https://www.hulu.com/search?q='' @ encodeURIComponent t,
       type = Some Subscription, price = None\<rparr>]"

definition series_getFallbackPurchasePlatforms :: "string \<Rightarrow> StreamingPlatform list" where
  "series_getFallbackPurchasePlatforms t =
     [\<lparr>platform = ''Amazon Video'',
       link = ''https://www.amazon.com/s?k='' @ encodeURIComponent t @ ''&i=instant-video'',
       type = Some Buy, price = None\<rparr>,
      \<lparr>platform = ''Apple TV'',
       link = ''https://tv.apple.com/search?term='' @ encodeURIComponent t,
       type = Some Buy, price = None\<rparr>]"

text \<open>\<open>MovieScraper.getFallbackStreamingPlatforms\<close> and \<open>getFallbackPurchasePlatforms\<close>.\<close>

definition getFallbackStreamingPlatforms :: "string \<Rightarrow> StreamingPlatform list" where
  "getFallbackStreamingPlatforms t = []"

definition getFallbackPurchasePlatforms :: "string \<Rightarrow> StreamingPlatform list" where
  "getFallbackPurchasePlatforms t = []"

text \<open>
  \<open>SeriesScraper.getStreamingAvailability\<close>, on what its two providers settled to. Both
  \<open>scrapeJustWatchSeries\<close> and \<open>getTMDBSeriesWatchProviders\<close> catch what their own calls
  throw and resolve to an object of two arrays, on which no statement of the \<open>try\<close> block
  raises; its \<open>catch\<close> block, which returns \<open>{ streaming: [], purchase: [] }\<close>, is not
  entered.
\<close>

definition series_getStreamingAvailability ::
  "string \<Rightarrow> AvailabilitySet settled \<Rightarrow> AvailabilitySet settled \<Rightarrow> AvailabilitySet" where
  "series_getStreamingAvailability t justWatch tmdbWatch =
     (let acc1 = mergeSettled justWatch emptyAvailability;
          acc2 = mergeSettled tmdbWatch acc1;
          uniqueStreaming = series_removeDuplicatePlatforms (streaming acc2);
          uniquePurchase = series_removeDuplicatePlatforms (purchase acc2)
      in \<lparr>streaming =
            (if length uniqueStreaming = 0
             then uniqueStreaming @ series_getFallbackStreamingPlatforms t
             else uniqueStreaming),
          purchase =
            (if length uniquePurchase = 0
             then uniquePurchase @ series_getFallbackPurchasePlatforms t
             else uniquePurchase)\<rparr>)"

text \<open>\<open>SeriesScraper.combineSeriesData\<close>.\<close>

definition combineSeriesData ::
  "Host \<Rightarrow> SeriesRequest \<Rightarrow> TmdbSeriesData option settled \<Rightarrow> AvailabilitySet settled
     \<Rightarrow> SeriesResponse" where
  "combineSeriesData h request tmdbResult streamingResult =
     (let tmdbData = (case tmdbResult of Fulfilled v \<Rightarrow> v | Rejected reason \<Rightarrow> None);
          streamingData =
            (case streamingResult of
               Fulfilled v \<Rightarrow> v
             | Rejected reason \<Rightarrow> \<lparr>streaming = [], purchase = []\<rparr>);
          tmdbDetails = map_option TmdbSeriesData.details tmdbData;
          slug = makeSlug (SeriesRequest.title request)
      in \<lparr>SeriesResponse.title = SeriesRequest.title request,
          SeriesResponse.year =
            orNum (SeriesRequest.year request)
              (case Option.bind tmdbDetails first_air_date of
                 None \<Rightarrow> None
               | Some d \<Rightarrow> if d = [] then None else Some (getFullYear h d)),
          SeriesResponse.slug = slug,
          SeriesResponse.rated =
            Option.bind
              (Option.bind
                 (Option.bind (Option.bind tmdbDetails content_ratings) ContentRatings.results)
                 (List.find (\<lambda>r. iso_3166_1 r = ''US'')))
              rating,
          SeriesResponse.released = Option.bind tmdbDetails first_air_date,
          SeriesResponse.plot = Option.bind tmdbDetails TmdbSeriesDetails.overview,
          SeriesResponse.runtime = Option.bind tmdbDetails episode_run_time,
          seriesType =
            Some (case Option.bind tmdbDetails TmdbSeriesDetails.type of
                    None \<Rightarrow> ''TV Series''
                  | Some t \<Rightarrow> if t = [] then ''TV Series'' else t),
          SeriesResponse.genres =
            (case Option.bind tmdbDetails TmdbSeriesDetails.genres of
               Some gs \<Rightarrow> map TmdbNamed.name gs
             | None \<Rightarrow> []),
          SeriesResponse.language =
            (case Option.bind tmdbDetails languages of Some ls \<Rightarrow> ls | None \<Rightarrow> []),
          SeriesResponse.country =
            (case Option.bind tmdbDetails TmdbSeriesDetails.production_countries of
               Some cs \<Rightarrow> map TmdbNamed.name cs
             | None \<Rightarrow> []),
          seasons = Option.bind tmdbDetails number_of_seasons,
          episodes = Option.bind tmdbDetails number_of_episodes,
          SeriesResponse.status = Option.bind tmdbDetails TmdbSeriesDetails.status,
          creators =
            (case Option.bind tmdbDetails created_by of
               Some cs \<Rightarrow> map (personOfNamed h) cs
             | None \<Rightarrow> []),
          SeriesResponse.cast =
            (case Option.bind (map_option TmdbSeriesData.credits tmdbData) TmdbCredits.cast of
               Some cs \<Rightarrow> map (castOfTmdb h) (take 20 cs)
             | None \<Rightarrow> []),
          SeriesResponse.production =
            \<lparr>SeriesProduction.companies =
               (case Option.bind tmdbDetails TmdbSeriesDetails.production_companies of
                  Some cs \<Rightarrow> map (personOfNamed h) cs
                | None \<Rightarrow> []),
             SeriesProduction.networks =
               (case Option.bind tmdbDetails TmdbSeriesDetails.networks of
                  Some ns \<Rightarrow> ns
                | None \<Rightarrow> []),
             SeriesProduction.studios = [],
             SeriesProduction.distributors = []\<rparr>,
          SeriesResponse.ratings =
            \<lparr>SeriesRatings.imdb = None,
             SeriesRatings.rottenTomatoes = None,
             SeriesRatings.metacritic = None,
             tmdb =
               (case Option.bind tmdbDetails vote_average of
                  None \<Rightarrow> None
                | Some a \<Rightarrow>
                    if truthyNum (Some a)
                    then Some \<lparr>score = a, votes = Option.bind tmdbDetails vote_count\<rparr>
                    else None)\<rparr>,
          SeriesResponse.poster =
            (case Option.bind tmdbDetails TmdbSeriesDetails.poster_path of
               None \<Rightarrow> None
             | Some p \<Rightarrow>
                 if p = [] then None
                 else Some \<lparr>Image.url = ''https://image.tmdb.org/t/p/w500'' @ p, publicId = p\<rparr>),
          SeriesResponse.availableOn = streamingData,
          SeriesResponse.references =
            \<lparr>imdbId = None,
             References.tmdbId =
               map_option (toString h) (Option.bind tmdbDetails TmdbSeriesDetails.id')\<rparr>\<rparr>)"

record SeriesProviders =
  TMDB_API_KEY :: string
  tmdbTvSearch :: "string + jsnum list"
  tmdbTv :: "string + TmdbSeriesData"
  justWatchSeries :: "AvailabilitySet settled"
  tmdbSeriesWatch :: "AvailabilitySet settled"

text \<open>\<open>SeriesScraper.getTMDBSeriesData\<close>.\<close>

definition getTMDBSeriesData :: "SeriesProviders \<Rightarrow> TmdbSeriesData option" where
  "getTMDBSeriesData p =
     (if TMDB_API_KEY p = [] then None
      else case tmdbTvSearch p of
             Inl error \<Rightarrow> None
           | Inr [] \<Rightarrow> None
           | Inr (seriesId # others) \<Rightarrow>
               (case tmdbTv p of Inl error \<Rightarrow> None | Inr d \<Rightarrow> Some d))"

text \<open>\<open>SeriesScraper.scrapeSeriesData\<close>.\<close>

definition scrapeSeriesData ::
  "Host \<Rightarrow> SeriesProviders \<Rightarrow> SeriesRequest \<Rightarrow> string + SeriesResponse" where
  "scrapeSeriesData h p request =
     Inr (combineSeriesData h request
            (Fulfilled (getTMDBSeriesData p))
            (Fulfilled (series_getStreamingAvailability (SeriesRequest.title request)
               (justWatchSeries p) (tmdbSeriesWatch p))))"

section \<open>Music merge\<close>

record Lyrics =
  preview :: string
  fullLyricsLink :: string
  fullLyrics :: "string option"

text \<open>
  The providers of one music request, each as the outcome of its network calls: an error
  (\<open>Inl\<close>) or what the code reads from the answer. \<open>spotifyTracks\<close> is
  \<open>tracks.items\<close> of the search in \<open>getSpotifyData\<close>, \<open>spotifyTrackLinks\<close> the
  \<open>external_urls.spotify\<close> of the items of the search in \<open>getSpotifyStreamingLinks\<close>;
  \<open>geniusSongLink\<close> is the \<open>href\<close> of the first search result, \<open>geniusLyricsText\<close> and
  \<open>azLyricsText\<close> the trimmed text of the lyrics element when the page has one; the last
  five are the value of \<open>trackUrl\<close> (for YouTube, of the id of the chosen video) when the
  page has been read.
\<close>

record MusicProviders =
  SPOTIFY_CLIENT_ID :: string
  SPOTIFY_CLIENT_SECRET :: string
  spotifyTracks :: "string + SpotifyTrack list"
  spotifyAudioFeatures :: "string + AudioFeatures"
  spotifyArtist :: "string + SpotifyArtist"
  spotifyAlbum :: "string + SpotifyAlbum"
  geniusSongLink :: "string + string option"
  geniusLyricsText :: "string + string option"
  azLyricsText :: "string + string option"
  spotifyTrackLinks :: "string + string list"
  appleMusicTrackUrl :: "string + string option"
  youtubeVideoId :: "string + string option"
  amazonMusicTrackUrl :: "string + string option"
  deezerTrackUrl :: "string + string option"
  tidalTrackUrl :: "string + string option"

text \<open>
  \<open>MusicScraper.getSpotifyData\<close>. The artist call reads \<open>track.artists[0].id\<close> and the
  album call \<open>track.album.id\<close>; where that raises, the \<open>catch\<close> of the call leaves the
  member \<open>null\<close>.
\<close>

definition getSpotifyData :: "MusicProviders \<Rightarrow> SpotifyData option" where
  "getSpotifyData p =
     (if SPOTIFY_CLIENT_ID p = [] \<or> SPOTIFY_CLIENT_SECRET p = [] then None
      else case spotifyTracks p of
             Inl error \<Rightarrow> None
           | Inr [] \<Rightarrow> None
           | Inr (item # others) \<Rightarrow>
               Some \<lparr>SpotifyData.track = item,
                     audioFeatures =
                       (case spotifyAudioFeatures p of Inl error \<Rightarrow> None | Inr v \<Rightarrow> Some v),
                     SpotifyData.artist =
                       (case SpotifyTrack.artists item of
                          None \<Rightarrow> None
                        | Some [] \<Rightarrow> None
                        | Some (a # as) \<Rightarrow>
                            (case spotifyArtist p of Inl error \<Rightarrow> None | Inr v \<Rightarrow> Some v)),
                     SpotifyData.album =
                       (case SpotifyTrack.album item of
                          None \<Rightarrow> None
                        | Some a \<Rightarrow>
                            (case spotifyAlbum p of Inl error \<Rightarrow> None | Inr v \<Rightarrow> Some v))\<rparr>)"

text \<open>\<open>MusicScraper.scrapeGeniusLyricsContent\<close>.\<close>

definition scrapeGeniusLyricsContent :: "Host \<Rightarrow> MusicProviders \<Rightarrow> Lyrics option" where
  "scrapeGeniusLyricsContent h p =
     (case geniusSongLink p of
        Inl error \<Rightarrow> None
      | Inr None \<Rightarrow> None
      | Inr (Some songLink) \<Rightarrow>
          if songLink = [] then None
          else
            (let fullLink =
                   (if startsWith songLink ''http'' then songLink
                    else ''https://genius.com'' @ songLink)
             in case geniusLyricsText p of
                  Inr (Some lyricsText) \<Rightarrow>
                    Some \<lparr>preview =
                            substring h lyricsText 0 200
                              @ (if lengthOf h lyricsText > 200 then ''...'' else []),
                          fullLyricsLink = fullLink,
                          fullLyrics = Some lyricsText\<rparr>
                | Inr None \<Rightarrow>
                    Some \<lparr>preview = ''Lyrics available on Genius'', fullLyricsLink = fullLink,
                          fullLyrics = None\<rparr>
                | Inl lyricsError \<Rightarrow>
                    Some \<lparr>preview = ''Lyrics available on Genius'', fullLyricsLink = fullLink,
                          fullLyrics = None\<rparr>))"

text \<open>
  \<open>MusicScraper.scrapeAZLyricsContent\<close>. Deleting every character that \<open>[^a-z0-9]\<close>
  matches leaves the bytes of the letters \<open>a-z\<close> and the digits.
\<close>

definition scrapeAZLyricsContent ::
  "Host \<Rightarrow> MusicProviders \<Rightarrow> string \<Rightarrow> string \<Rightarrow> Lyrics option" where
  "scrapeAZLyricsContent h p t a =
     (let cleanArtist = filter isLowerAlnum (toLowerCase a);
          cleanTitle = filter isLowerAlnum (toLowerCase t);
          azUrl = ''https://www.azlyrics.com/lyrics/'' @ cleanArtist @ ''/'' @ cleanTitle @ ''.html''
      in case azLyricsText p of
           Inl error \<Rightarrow> None
         | Inr (Some lyricsText) \<Rightarrow>
             Some \<lparr>preview =
                     substring h lyricsText 0 200
                       @ (if lengthOf h lyricsText > 200 then ''...'' else []),
                   fullLyricsLink = azUrl,
                   fullLyrics = Some lyricsText\<rparr>
         | Inr None \<Rightarrow>
             Some \<lparr>preview = ''Lyrics may be available on AZLyrics'', fullLyricsLink = azUrl,
                   fullLyrics = None\<rparr>)"

text \<open>\<open>MusicScraper.getLyricsData\<close>.\<close>

definition getLyricsData :: "Host \<Rightarrow> MusicProviders \<Rightarrow> string \<Rightarrow> string \<Rightarrow> Lyrics option" where
  "getLyricsData h p t a =
     (case scrapeGeniusLyricsContent h p of
        Some geniusData \<Rightarrow> Some geniusData
      | None \<Rightarrow>
          (case scrapeAZLyricsContent h p t a of
             Some azLyricsData \<Rightarrow> Some azLyricsData
           | None \<Rightarrow>
               Some \<lparr>preview = ''Lyrics not found for '' @ t @ '' by '' @ a,
                     fullLyricsLink =
                       ''https://genius.com/search?q='' @ encodeURIComponent (a @ '' '' @ t),
                     fullLyrics = None\<rparr>))"

text \<open>\<open>MusicScraper.getSpotifyStreamingLinks\<close>.\<close>

definition getSpotifyStreamingLinks ::
  "MusicProviders \<Rightarrow> string \<Rightarrow> string \<Rightarrow> StreamingPlatform option" where
  "getSpotifyStreamingLinks p t a =
     (if SPOTIFY_CLIENT_ID p = [] \<or> SPOTIFY_CLIENT_SECRET p = []
      then Some \<lparr>platform = ''Spotify'',
                 link = ''https://open.spotify.com/search/'' @ encodeURIComponent (a @ '' '' @ t),
                 type = Some Subscription, price = None\<rparr>
      else case spotifyTrackLinks p of
             Inl error \<Rightarrow> None
           | Inr (trackLink # others) \<Rightarrow>
               Some \<lparr>platform = ''Spotify'', link = trackLink, type = Some Subscription,
                     price = None\<rparr>
           | Inr [] \<Rightarrow>
               Some \<lparr>platform = ''Spotify'',
                     link = ''https://open.spotify.com/search/'' @ encodeURIComponent (a @ '' '' @ t),
                     type = Some Subscription, price = None\<rparr>)"

text \<open>
  The five scrapers of \<open>MusicScraper\<close>. Each returns \<open>null\<close> when its page cannot be read or
  names no track, and else one offer, or a streaming and a purchase offer, with the link
  found.
\<close>

definition scrapeAppleMusicDirectly ::
  "MusicProviders \<Rightarrow> (StreamingPlatform \<times> StreamingPlatform) option" where
  "scrapeAppleMusicDirectly p =
     (case appleMusicTrackUrl p of
        Inl error \<Rightarrow> None
      | Inr None \<Rightarrow> None
      | Inr (Some trackUrl) \<Rightarrow>
          if trackUrl = [] then None
          else Some (\<lparr>platform = ''Apple Music'', link = trackUrl, type = Some Subscription,
                       price = None\<rparr>,
                     \<lparr>platform = ''iTunes'', link = trackUrl, type = Some Buy, price = None\<rparr>))"

definition scrapeYouTubeDirectly :: "MusicProviders \<Rightarrow> StreamingPlatform option" where
  "scrapeYouTubeDirectly p =
     (case youtubeVideoId p of
        Inl error \<Rightarrow> None
      | Inr None \<Rightarrow> None
      | Inr (Some videoId) \<Rightarrow>
          Some \<lparr>platform = ''YouTube'', link = ''https://www.youtube.com/watch?v='' @ videoId,
                type = Some Free, price = None\<rparr>)"

definition scrapeAmazonMusicDirectly ::
  "MusicProviders \<Rightarrow> (StreamingPlatform \<times> StreamingPlatform) option" where
  "scrapeAmazonMusicDirectly p =
     (case amazonMusicTrackUrl p of
        Inl error \<Rightarrow> None
      | Inr None \<Rightarrow> None
      | Inr (Some trackUrl) \<Rightarrow>
          if trackUrl = [] then None
          else Some (\<lparr>platform = ''Amazon Music'', link = trackUrl, type = Some Subscription,
                       price = None\<rparr>,
                     \<lparr>platform = ''Amazon Music'', link = trackUrl, type = Some Buy,
                       price = None\<rparr>))"

definition scrapeDeezerDirectly :: "MusicProviders \<Rightarrow> StreamingPlatform option" where
  "scrapeDeezerDirectly p =
     (case deezerTrackUrl p of
        Inl error \<Rightarrow> None
      | Inr None \<Rightarrow> None
      | Inr (Some trackUrl) \<Rightarrow>
          if trackUrl = [] then None
          else Some \<lparr>platform = ''Deezer'', link = trackUrl, type = Some Subscription,
                     price = None\<rparr>)"

definition scrapeTidalDirectly :: "MusicProviders \<Rightarrow> StreamingPlatform option" where
  "scrapeTidalDirectly p =
     (case tidalTrackUrl p of
        Inl error \<Rightarrow> None
      | Inr None \<Rightarrow> None
      | Inr (Some trackUrl) \<Rightarrow>
          if trackUrl = [] then None
          else Some \<lparr>platform = ''Tidal'', link = trackUrl, type = Some Subscription,
                     price = None\<rparr>)"

text \<open>
  The \<open>if (x.status === "fulfilled" && x.value)\<close> blocks of
  \<open>MusicScraper.getStreamingAvailability\<close>: for a provider of one offer, and for a provider
  of a streaming and a purchase offer.
\<close>

fun pushOffer :: "StreamingPlatform option settled \<Rightarrow> AvailabilitySet \<Rightarrow> AvailabilitySet" where
  "pushOffer (Fulfilled (Some v)) acc = \<lparr>streaming = streaming acc @ [v], purchase = purchase acc\<rparr>"
| "pushOffer (Fulfilled None) acc = acc"
| "pushOffer (Rejected reason) acc = acc"

fun pushOffers ::
  "(StreamingPlatform \<times> StreamingPlatform) option settled \<Rightarrow> AvailabilitySet \<Rightarrow> AvailabilitySet" where
  "pushOffers (Fulfilled (Some (s, b))) acc =
     \<lparr>streaming = streaming acc @ [s], purchase = purchase acc @ [b]\<rparr>"
| "pushOffers (Fulfilled None) acc = acc"
| "pushOffers (Rejected reason) acc = acc"

text \<open>\<open>MusicScraper.getStreamingAvailability\<close>, on what its six providers settled to.\<close>

definition music_getStreamingAvailability ::
  "StreamingPlatform option settled \<Rightarrow> (StreamingPlatform \<times> StreamingPlatform) option settled
     \<Rightarrow> StreamingPlatform option settled \<Rightarrow> (StreamingPlatform \<times> StreamingPlatform) option settled
     \<Rightarrow> StreamingPlatform option settled \<Rightarrow> StreamingPlatform option settled \<Rightarrow> AvailabilitySet" where
  "music_getStreamingAvailability spotifyLinks appleMusicLinks youtubeLinks amazonMusicLinks
       deezerLinks tidalLinks =
     pushOffer tidalLinks
       (pushOffer deezerLinks
          (pushOffers amazonMusicLinks
             (pushOffer youtubeLinks
                (pushOffers appleMusicLinks
                   (pushOffer spotifyLinks \<lparr>streaming = [], purchase = []\<rparr>)))))"

text \<open>
  \<open>MusicScraper.getMusicalKey\<close>. \<open>keys[keyNumber]\<close> is an element for the whole numbers 0
  to 11 and \<open>undefined\<close> for every other value, \<open>null\<close> and \<open>NaN\<close> among them.
\<close>

definition getMusicalKey :: "KeyValue \<Rightarrow> string" where
  "getMusicalKey keyNumber =
     (let keys = [''C'', ''C#'', ''D'', ''D#'', ''E'', ''F'', ''F#'', ''G'', ''G#'', ''A'', ''A#'', ''B'']
      in case keyNumber of
           KeyNumber (Num r) \<Rightarrow>
             if of_int \<lfloor>r\<rfloor> = r \<and> 0 \<le> r \<and> r < 12 then keys ! nat \<lfloor>r\<rfloor> else ''Unknown''
         | KeyNumber NaN \<Rightarrow> ''Unknown''
         | KeyNull \<Rightarrow> ''Unknown'')"

record MusicArtist =
  name :: string
  spotifyId :: "string option"
  genres :: "string list"
  popularity :: "jsnum option"
  followers :: "jsnum option"
  images :: "SpotifyImage list"

record FeaturedArtist =
  name :: string
  spotifyId :: "string option"

record CoverImage =
  url :: string
  publicId :: "string option"

record MusicAlbum =
  title :: string
  releaseYear :: jsnum
  coverImage :: "CoverImage option"
  spotifyId :: "string option"
  recordLabel :: "string option"
  totalTracks :: "jsnum option"
  albumType :: "string option"

record MusicRatings =
  spotify :: "Rating option"

record MusicReferences =
  spotifyId :: "string option"
  spotifyArtistId :: "string option"
  spotifyAlbumId :: "string option"
  isrc :: "string option"

record MusicResponse =
  title :: string
  slug :: string
  artist :: MusicArtist
  featuredArtists :: "FeaturedArtist list"
  album :: "MusicAlbum option"
  releaseYear :: jsnum
  duration :: "string option"
  genres :: "string list"
  mood :: "string list"
  language :: "string option"
  bpm :: "jsnum option"
  key :: "string option"
  energy :: "jsnum option"
  danceability :: "jsnum option"
  acousticness :: "jsnum option"
  instrumentalness :: "jsnum option"
  liveness :: "jsnum option"
  speechiness :: "jsnum option"
  formats :: "string list"
  writers :: "string list"
  producers :: "PersonRef list"
  availableOn :: AvailabilitySet
  ratings :: MusicRatings
  lyrics :: "Lyrics option"
  references :: MusicReferences

text \<open>
  \<open>MusicScraper.combineMusicData\<close>. After the three constants of the source, \<open>track\<close>,
  \<open>trackAlbum\<close>, \<open>features\<close>, \<open>artistDetails\<close> and \<open>albumDetails\<close> name \<open>spotifyData?.track\<close>,
  \<open>spotifyData?.track?.album\<close>, \<open>spotifyData?.audioFeatures\<close>, \<open>spotifyData?.artist\<close> and
  \<open>spotifyData?.album\<close>, and \<open>spotifyYear\<close> the second operand of \<open>releaseYear\<close>. The year
  of a missing \<open>release_date\<close> is that of \<open>new Date(undefined)\<close>, which is \<open>NaN\<close>.
\<close>

definition combineMusicData ::
  "Host \<Rightarrow> MusicRequest \<Rightarrow> SpotifyData option settled \<Rightarrow> Lyrics option settled
     \<Rightarrow> AvailabilitySet settled \<Rightarrow> MusicResponse" where
  "combineMusicData h request spotifyResult lyricsResult streamingResult =
     (let spotifyData = (case spotifyResult of Fulfilled v \<Rightarrow> v | Rejected reason \<Rightarrow> None);
          lyricsData = (case lyricsResult of Fulfilled v \<Rightarrow> v | Rejected reason \<Rightarrow> None);
          streamingData =
            (case streamingResult of
               Fulfilled v \<Rightarrow> v
             | Rejected reason \<Rightarrow> \<lparr>streaming = [], purchase = []\<rparr>);
          slug = makeSlug (MusicRequest.title request @ ''-'' @ MusicRequest.artist request);
          track = map_option SpotifyData.track spotifyData;
          trackAlbum = Option.bind track SpotifyTrack.album;
          features = Option.bind spotifyData audioFeatures;
          artistDetails = Option.bind spotifyData SpotifyData.artist;
          albumDetails = Option.bind spotifyData SpotifyData.album;
          spotifyYear =
            (case Option.bind trackAlbum SpotifyTrackAlbum.release_date of
               None \<Rightarrow> currentYear h
             | Some d \<Rightarrow> if d = [] then currentYear h else getFullYear h d)
      in \<lparr>MusicResponse.title = MusicRequest.title request,
          MusicResponse.slug = slug,
          MusicResponse.artist =
            \<lparr>MusicArtist.name = MusicRequest.artist request,
             MusicArtist.spotifyId = Option.bind artistDetails SpotifyArtist.id',
             MusicArtist.genres =
               (case Option.bind artistDetails SpotifyArtist.genres of
                  Some gs \<Rightarrow> gs
                | None \<Rightarrow> []),
             MusicArtist.popularity = Option.bind artistDetails SpotifyArtist.popularity,
             MusicArtist.followers =
               Option.bind (Option.bind artistDetails SpotifyArtist.followers) total,
             MusicArtist.images =
               (case Option.bind artistDetails SpotifyArtist.images of
                  Some is \<Rightarrow> is
                | None \<Rightarrow> [])\<rparr>,
          featuredArtists =
            (case Option.bind track SpotifyTrack.artists of
               Some as \<Rightarrow>
                 map (\<lambda>a. \<lparr>FeaturedArtist.name = SpotifyArtistRef.name a,
                            FeaturedArtist.spotifyId = SpotifyArtistRef.id' a\<rparr>) (drop 1 as)
             | None \<Rightarrow> []),
          MusicResponse.album =
            (case trackAlbum of
               None \<Rightarrow> None
             | Some ta \<Rightarrow>
                 Some \<lparr>MusicAlbum.title = SpotifyTrackAlbum.name ta,
                       MusicAlbum.releaseYear =
                         (case SpotifyTrackAlbum.release_date ta of
                            None \<Rightarrow> NaN
                          | Some d \<Rightarrow> getFullYear h d),
                       coverImage =
                         (case SpotifyTrackAlbum.images ta of
                            None \<Rightarrow> None
                          | Some [] \<Rightarrow> None
                          | Some (img # others) \<Rightarrow>
                              Some \<lparr>CoverImage.url = url' img,
                                    CoverImage.publicId = SpotifyTrackAlbum.id' ta\<rparr>),
                       MusicAlbum.spotifyId = SpotifyTrackAlbum.id' ta,
                       recordLabel =
                         orStr (Option.bind albumDetails SpotifyAlbum.label)
                           (SpotifyTrackAlbum.label ta),
                       totalTracks =
                         orNum (Option.bind albumDetails SpotifyAlbum.total_tracks)
                           (SpotifyTrackAlbum.total_tracks ta),
                       albumType =
                         orStr (Option.bind albumDetails SpotifyAlbum.album_type)
                           (SpotifyTrackAlbum.album_type ta)\<rparr>),
          MusicResponse.releaseYear =
            (case MusicRequest.year request of
               None \<Rightarrow> spotifyYear
             | Some y \<Rightarrow> if truthyNum (Some y) then y else spotifyYear),
          duration =
            (case Option.bind track duration_ms of
               None \<Rightarrow> None
             | Some d \<Rightarrow>
                 if truthyNum (Some d)
                 then Some (toString h (mathFloor (dividedBy d 60000)) @ '' min ''
                            @ toString h (mathFloor (dividedBy (remainderBy d 60000) 1000))
                            @ '' sec'')
                 else None),
          MusicResponse.genres =
            (case Option.bind artistDetails SpotifyArtist.genres of
               Some gs \<Rightarrow> gs
             | None \<Rightarrow>
                 (case MusicRequest.genre request of
                    None \<Rightarrow> []
                  | Some g \<Rightarrow> if g = [] then [] else [g])),
          mood =
            (if exceeds (Option.bind features valence) (1 / 2)
             then [''Happy'', ''Upbeat'']
             else [''Mellow'', ''Calm'']),
          MusicResponse.language = Some ''English'',
          bpm =
            (case Option.bind features tempo of
               None \<Rightarrow> None
             | Some t \<Rightarrow> if truthyNum (Some t) then Some (mathRound t) else None),
          MusicResponse.key =
            (case Option.bind features AudioFeatures.key of
               None \<Rightarrow> None
             | Some k \<Rightarrow> Some (getMusicalKey k)),
          MusicResponse.energy = Option.bind features AudioFeatures.energy,
          MusicResponse.danceability = Option.bind features AudioFeatures.danceability,
          MusicResponse.acousticness = Option.bind features AudioFeatures.acousticness,
          MusicResponse.instrumentalness = Option.bind features AudioFeatures.instrumentalness,
          MusicResponse.liveness = Option.bind features AudioFeatures.liveness,
          MusicResponse.speechiness = Option.bind features AudioFeatures.speechiness,
          formats = [''Digital'', ''Streaming''],
          MusicResponse.writers =
            (case Option.bind albumDetails copyrights of
               Some cs \<Rightarrow> map text' (filter (\<lambda>c. SpotifyCopyright.type c = ''P'') cs)
             | None \<Rightarrow> []),
          producers = [],
          MusicResponse.availableOn = streamingData,
          MusicResponse.ratings =
            \<lparr>spotify =
               (case Option.bind track SpotifyTrack.popularity of
                  None \<Rightarrow> None
                | Some pop \<Rightarrow>
                    if truthyNum (Some pop) then Some \<lparr>score = pop, votes = Some (Num 100)\<rparr>
                    else None)\<rparr>,
          lyrics = lyricsData,
          MusicResponse.references =
            \<lparr>MusicReferences.spotifyId = Option.bind track SpotifyTrack.id',
             spotifyArtistId = Option.bind artistDetails SpotifyArtist.id',
             spotifyAlbumId = Option.bind trackAlbum SpotifyTrackAlbum.id',
             MusicReferences.isrc =
               Option.bind (Option.bind track external_ids) ExternalIds.isrc\<rparr>\<rparr>)"

text \<open>
  \<open>MusicScraper.scrapeMusicData\<close>. The three methods, and the six that
  \<open>getStreamingAvailability\<close> awaits, catch what their calls throw, so every promise is
  fulfilled.
\<close>

definition scrapeMusicData :: "Host \<Rightarrow> MusicProviders \<Rightarrow> MusicRequest \<Rightarrow> string + MusicResponse" where
  "scrapeMusicData h p request =
     Inr (combineMusicData h request
            (Fulfilled (getSpotifyData p))
            (Fulfilled (getLyricsData h p (MusicRequest.title request) (MusicRequest.artist request)))
            (Fulfilled
               (music_getStreamingAvailability
                  (Fulfilled (getSpotifyStreamingLinks p (MusicRequest.title request)
                     (MusicRequest.artist request)))
                  (Fulfilled (scrapeAppleMusicDirectly p))
                  (Fulfilled (scrapeYouTubeDirectly p))
                  (Fulfilled (scrapeAmazonMusicDirectly p))
                  (Fulfilled (scrapeDeezerDirectly p))
                  (Fulfilled (scrapeTidalDirectly p)))))"

section \<open>Book merge\<close>

text \<open>\<open>BookScraper.getGoogleBooksData\<close>, on the outcome of its call: an error, or \<open>items\<close>.\<close>

record BookProviders =
  googleBooksItems :: "string + GoogleVolume list"

definition getGoogleBooksData :: "BookProviders \<Rightarrow> GoogleVolume option" where
  "getGoogleBooksData p =
     (case googleBooksItems p of
        Inl error \<Rightarrow> None
      | Inr [] \<Rightarrow> None
      | Inr (item # others) \<Rightarrow> Some item)"

text \<open>The \<open>searchQuery\<close> of \<open>getGoodreadsData\<close> and of \<open>getBookAvailability\<close>.\<close>

definition searchQuery :: "string \<Rightarrow> string option \<Rightarrow> string" where
  "searchQuery t author' =
     (case author' of
        None \<Rightarrow> t
      | Some a \<Rightarrow> if a = [] then t else t @ '' '' @ a)"

text \<open>\<open>BookScraper.getGoodreadsData\<close>, which calls no provider.\<close>

definition getGoodreadsData :: "string \<Rightarrow> string option \<Rightarrow> GoodreadsData option" where
  "getGoodreadsData t author' =
     Some \<lparr>searchUrl =
             ''https://www.goodreads.com/search?q='' @ encodeURIComponent (searchQuery t author')\<rparr>"

record BookAvailability =
  ebook :: "StreamingPlatform list"
  paperback :: "StreamingPlatform list"
  hardcover :: "StreamingPlatform list"
  audiobook :: "StreamingPlatform list"

text \<open>\<open>BookScraper.getBookAvailability\<close>, which calls no provider either.\<close>

definition getBookAvailability :: "string \<Rightarrow> string option \<Rightarrow> BookAvailability" where
  "getBookAvailability t author' =
     (let encodedQuery = encodeURIComponent (searchQuery t author')
      in \<lparr>ebook =
            [\<lparr>platform = ''Amazon Kindle'',
              link = ''https://www.amazon.com/s?k='' @ encodedQuery @ ''&i=digital-text'',
              type = Some Buy, price = None\<rparr>,
             \<lparr>platform = ''Apple Books'',
              link = ''https://books.apple.com/search?term='' @ encodedQuery,
              type = Some Buy, price = None\<rparr>,
             \<lparr>platform = ''Google Play Books'',
              link = ''https://play.google.com/store/search?q='' @ encodedQuery @ ''&c=books'',
              type = Some Buy, price = None\<rparr>,
             \<lparr>platform = ''Barnes & Noble Nook'',
              link = ''https://www.barnesandnoble.com/s/'' @ encodedQuery,
              type = Some Buy, price = None\<rparr>,
             \<lparr>platform = ''Kobo'',
              link = ''https://www.kobo.com/search?query='' @ encodedQuery,
              type = Some Buy, price = None\<rparr>,
             \<lparr>platform = ''Kindle Unlimited'',
              link = ''https://www.amazon.com/kindle-unlimited/search?query='' @ encodedQuery,
              type = Some Subscription, price = None\<rparr>],
          paperback =
            [\<lparr>platform = ''Amazon'',
              link = ''https://www.amazon.com/s?k='' @ encodedQuery @ ''&i=stripbooks'',
              type = Some Buy, price = None\<rparr>,
             \<lparr>platform = ''Barnes & Noble'',
              link = ''https://www.barnesandnoble.com/s/'' @ encodedQuery,
              type = Some Buy, price = None\<rparr>,
             \<lparr>platform = ''Book Depository'',
              link = ''https://www.bookdepository.com/search?searchTerm='' @ encodedQuery,
              type = Some Buy, price = None\<rparr>,
             \<lparr>platform = ''Target'',
              link = ''https://www.target.com/s?searchTerm='' @ encodedQuery @ ''&category=5xa0'',
              type = Some Buy, price = None\<rparr>,
             \<lparr>platform = ''Walmart'',
              link = ''https://www.walmart.com/search?query='' @ encodedQuery @ ''&cat_id=3920'',
              type = Some Buy, price = None\<rparr>],
          hardcover =
            [\<lparr>platform = ''Amazon'',
              link = ''https://www.amazon.com/s?k='' @ encodedQuery
                @ ''&i=stripbooks&rh=n%3A283155%2Cp_n_feature_browse-bin%3A2656022011'',
              type = Some Buy, price = None\<rparr>,
             \<lparr>platform = ''Barnes & Noble'',
              link = ''https://www.barnesandnoble.com/s/'' @ encodedQuery,
              type = Some Buy, price = None\<rparr>,
             \<lparr>platform = ''Book Depository'',
              link = ''https://www.bookdepository.com/search?searchTerm='' @ encodedQuery,
              type = Some Buy, price = None\<rparr>],
          audiobook =
            [\<lparr>platform = ''Audible'',
              link = ''https://www.audible.com/search?keywords='' @ encodedQuery,
              type = Some Subscription, price = None\<rparr>,
             \<lparr>platform = ''Spotify'',
              link = ''https://open.spotify.com/search/'' @ encodedQuery,
              type = Some Subscription, price = None\<rparr>,
             \<lparr>platform = ''Apple Books'',
              link = ''https://books.apple.com/search?term='' @ encodedQuery,
              type = Some Buy, price = None\<rparr>,
             \<lparr>platform = ''Google Play Books'',
              link = ''https://play.google.com/store/search?q='' @ encodedQuery @ ''&c=books'',
              type = Some Buy, price = None\<rparr>,
             \<lparr>platform = ''Libro.fm'',
              link = ''https://libro.fm/search/'' @ encodedQuery,
              type = Some Buy, price = None\<rparr>]\<rparr>)"

record BookAuthor =
  name :: string

record BookPublisher =
  name :: string

record BookRatings =
  googleBooks :: "Rating option"

record Award =
  name :: string
  year :: jsnum

record BookReferences =
  isbn10 :: "string option"
  isbn13 :: "string option"
  googleBooksId :: "string option"

record BookResponse =
  title :: string
  slug :: string
  author :: "BookAuthor list"
  isbn :: "string option"
  publishedYear :: "jsnum option"
  publisher :: "BookPublisher option"
  genres :: "string list"
  language :: string
  pages :: "jsnum option"
  format :: "string list"
  description :: "string option"
  ratings :: BookRatings
  awards :: "Award list"
  availableOn :: BookAvailability
  references :: BookReferences

text \<open>
  \<open>BookScraper.combineBookData\<close>. \<open>identifierOf\<close> names the expression
  \<open>volumeInfo?.industryIdentifiers?.find((id) => id.type === kind)?.identifier\<close>, which the
  source writes three times.
\<close>

definition identifierOf :: "VolumeInfo option \<Rightarrow> string \<Rightarrow> string option" where
  "identifierOf volume kind =
     Option.bind
       (Option.bind (Option.bind volume industryIdentifiers)
          (List.find (\<lambda>i. IndustryIdentifier.type i = kind)))
       identifier'"

definition combineBookData ::
  "Host \<Rightarrow> BookRequest \<Rightarrow> GoogleVolume option settled \<Rightarrow> GoodreadsData option settled
     \<Rightarrow> BookAvailability settled \<Rightarrow> BookResponse" where
  "combineBookData h request googleBooksResult goodreadsResult availabilityResult =
     (let googleBooksData = (case googleBooksResult of Fulfilled v \<Rightarrow> v | Rejected reason \<Rightarrow> None);
          goodreadsData = (case goodreadsResult of Fulfilled v \<Rightarrow> v | Rejected reason \<Rightarrow> None);
          availabilityData =
            (case availabilityResult of
               Fulfilled v \<Rightarrow> v
             | Rejected reason \<Rightarrow> \<lparr>ebook = [], paperback = [], hardcover = [], audiobook = []\<rparr>);
          volume = Option.bind googleBooksData volumeInfo;
          slug = makeSlug (BookRequest.title request)
      in \<lparr>BookResponse.title = BookRequest.title request,
          BookResponse.slug = slug,
          BookResponse.author =
            (case BookRequest.author request of
               Some a \<Rightarrow>
                 if a = []
                 then (case Option.bind volume authors of
                         Some as \<Rightarrow> map (\<lambda>n. \<lparr>BookAuthor.name = n\<rparr>) as
                       | None \<Rightarrow> [])
                 else [\<lparr>BookAuthor.name = a\<rparr>]
             | None \<Rightarrow>
                 (case Option.bind volume authors of
                    Some as \<Rightarrow> map (\<lambda>n. \<lparr>BookAuthor.name = n\<rparr>) as
                  | None \<Rightarrow> [])),
          BookResponse.isbn = orStr (BookRequest.isbn request) (identifierOf volume ''ISBN_13''),
          publishedYear =
            orNum (BookRequest.year request)
              (case Option.bind volume publishedDate of
                 None \<Rightarrow> None
               | Some d \<Rightarrow> if d = [] then None else Some (getFullYear h d)),
          BookResponse.publisher =
            (case Option.bind volume VolumeInfo.publisher of
               None \<Rightarrow> None
             | Some n \<Rightarrow> if n = [] then None else Some \<lparr>BookPublisher.name = n\<rparr>),
          BookResponse.genres =
            (case Option.bind volume categories of
               Some cs \<Rightarrow> cs
             | None \<Rightarrow>
                 (case BookRequest.genre request of
                    None \<Rightarrow> []
                  | Some g \<Rightarrow> if g = [] then [] else [g])),
          BookResponse.language =
            (case Option.bind volume VolumeInfo.language of
               None \<Rightarrow> ''en''
             | Some l \<Rightarrow> if l = [] then ''en'' else l),
          pages = Option.bind volume pageCount,
          format = [''Paperback'', ''Hardcover'', ''Ebook'', ''Audiobook''],
          BookResponse.description = Option.bind volume VolumeInfo.description,
          BookResponse.ratings =
            \<lparr>googleBooks =
               (case Option.bind volume averageRating of
                  None \<Rightarrow> None
                | Some a \<Rightarrow>
                    if truthyNum (Some a)
                    then Some \<lparr>score = a,
                               votes = orNum (Option.bind volume ratingsCount) (Some (Num 0))\<rparr>
                    else None)\<rparr>,
          awards = [],
          BookResponse.availableOn = availabilityData,
          BookResponse.references =
            \<lparr>isbn10 = identifierOf volume ''ISBN_10'',
             isbn13 = identifierOf volume ''ISBN_13'',
             googleBooksId = Option.bind googleBooksData GoogleVolume.id'\<rparr>\<rparr>)"

text \<open>\<open>BookScraper.scrapeBookData\<close>.\<close>

definition scrapeBookData :: "Host \<Rightarrow> BookProviders \<Rightarrow> BookRequest \<Rightarrow> string + BookResponse" where
  "scrapeBookData h p request =
     Inr (combineBookData h request
            (Fulfilled (getGoogleBooksData p))
            (Fulfilled (getGoodreadsData (BookRequest.title request) (BookRequest.author request)))
            (Fulfilled (getBookAvailability (BookRequest.title request) (BookRequest.author request))))"

section \<open>Examples\<close>

text \<open>Requests and providers of the examples.\<close>

definition severance :: SeriesRequest where
  "severance =
     \<lparr>SeriesRequest.title = ''Severance'', SeriesRequest.year = None, creator = None,
      network = None, SeriesRequest.genre = None\<rparr>"

definition seriesProvidersDown :: SeriesProviders where
  "seriesProvidersDown =
     \<lparr>TMDB_API_KEY = [], tmdbTvSearch = Inl ''ECONNREFUSED'', tmdbTv = Inl ''ECONNREFUSED'',
      justWatchSeries = Fulfilled \<lparr>streaming = [], purchase = []\<rparr>,
      tmdbSeriesWatch = Fulfilled \<lparr>streaming = [], purchase = []\<rparr>\<rparr>"

definition yesterdayBeatles :: MusicRequest where
  "yesterdayBeatles =
     \<lparr>MusicRequest.title = ''Yesterday'', artist = ''The Beatles'', MusicRequest.year = None,
      album = None, MusicRequest.genre = None\<rparr>"

definition yesterdayBoyz :: MusicRequest where
  "yesterdayBoyz =
     \<lparr>MusicRequest.title = ''Yesterday'', artist = ''Boyz II Men'', MusicRequest.year = None,
      album = None, MusicRequest.genre = None\<rparr>"

text \<open>
  A runtime library for the closed examples. None of them has provider data, so none
  reaches a call of it.
\<close>

definition exampleHost :: Host where
  "exampleHost =
     \<lparr>parseInt = (\<lambda>s. NaN), parseFloat = (\<lambda>s. NaN), toLocaleString = (\<lambda>n. ''NaN''),
      toString = (\<lambda>n. ''NaN''), getFullYear = (\<lambda>s. NaN), currentYear = Num 2025,
      substring = (\<lambda>s i j. take (j - i) (drop i s)), lengthOf = length\<rparr>"

text \<open>
  Movie requests whose titles have a letter outside ASCII: \<open>Am\<close>, e with acute accent
  (U+00E9, bytes C3 A9), \<open>lie\<close>; dotted capital I (U+0130), \<open>stanbul\<close>; the Kelvin sign
  (U+212A), \<open>elvin\<close>.
\<close>

definition amelie :: MovieRequest where
  "amelie =
     \<lparr>MovieRequest.title = ''Am'' @ [CHR 0xC3, CHR 0xA9] @ ''lie'', MovieRequest.year = Num 2001,
      MovieRequest.director = None, MovieRequest.cast = None, MovieRequest.genre = None\<rparr>"

definition istanbul :: MovieRequest where
  "istanbul =
     \<lparr>MovieRequest.title = [CHR 0xC4, CHR 0xB0] @ ''stanbul'', MovieRequest.year = Num 2020,
      MovieRequest.director = None, MovieRequest.cast = None, MovieRequest.genre = None\<rparr>"

definition kelvin :: MovieRequest where
  "kelvin =
     \<lparr>MovieRequest.title = [CHR 0xE2, CHR 0x84, CHR 0xAA] @ ''elvin'', MovieRequest.year = Num 2020,
      MovieRequest.director = None, MovieRequest.cast = None, MovieRequest.genre = None\<rparr>"

section \<open>Properties of deduplication\<close>

lemma typeString_no_dash: "CHR ''-'' \<notin> set (typeString t)"
  by (induction t rule: typeString.induct) simp_all

lemma typeString_inj: "typeString s = typeString t \<Longrightarrow> s = t"
  by (induction s rule: typeString.induct; induction t rule: typeString.induct) simp_all

lemma takeWhile_until: "c \<notin> set xs \<Longrightarrow> takeWhile (\<lambda>d. d \<noteq> c) (xs @ c # ys) = xs"
  by (induction xs) auto

lemma distinct_map_inner: "distinct (map (\<lambda>p. f (g p)) xs) \<Longrightarrow> distinct (map g xs)"
  by (induction xs) auto

lemma last_dash_split:
  assumes "CHR ''-'' \<notin> set t1" and "CHR ''-'' \<notin> set t2"
    and "p1 @ CHR ''-'' # t1 = p2 @ CHR ''-'' # t2"
  shows "p1 = p2 \<and> t1 = t2"
proof -
  let ?P = "\<lambda>c. c \<noteq> CHR ''-''"
  have tw: "takeWhile ?P (rev t @ CHR ''-'' # rev p) = rev t" if "CHR ''-'' \<notin> set t" for t p
    using that by (simp add: takeWhile_until)
  have "rev (p1 @ CHR ''-'' # t1) = rev (p2 @ CHR ''-'' # t2)"
    using assms(3) by simp
  then have "rev t1 @ CHR ''-'' # rev p1 = rev t2 @ CHR ''-'' # rev p2"
    by simp
  then have "takeWhile ?P (rev t1 @ CHR ''-'' # rev p1) = takeWhile ?P (rev t2 @ CHR ''-'' # rev p2)"
    by simp
  then have "rev t1 = rev t2"
    using tw [OF assms(1)] tw [OF assms(2)] by simp
  then have "t1 = t2" by simp
  with assms(3) show ?thesis by simp
qed

lemma platformKey_eq_iff: "platformKey q = platformKey p \<longleftrightarrow> sameOffer p q"
proof
  assume "platformKey q = platformKey p"
  then have "platform q @ CHR ''-'' # typeString (type q) = platform p @ CHR ''-'' # typeString (type p)"
    by (simp add: platformKey_def)
  then have "platform q = platform p \<and> typeString (type q) = typeString (type p)"
    by (rule last_dash_split [OF typeString_no_dash typeString_no_dash])
  then show "sameOffer p q"
    by (simp add: sameOffer_def typeString_inj)
next
  assume "sameOffer p q"
  then show "platformKey q = platformKey p"
    by (simp add: sameOffer_def platformKey_def)
qed

lemma filterSeen_subseq: "subseq (filterSeen seen xs) xs"
  by (induction xs arbitrary: seen) (auto simp: Let_def)

lemma filterSeen_keys: "platformKey ` set (filterSeen seen xs) \<inter> seen = {}"
proof (induction xs arbitrary: seen)
  case Nil
  show ?case by simp
next
  case (Cons x xs)
  from Cons [of seen] Cons [of "insert (platformKey x) seen"] show ?case
    by (auto simp: Let_def)
qed

lemma filterSeen_distinct: "distinct (map platformKey (filterSeen seen xs))"
proof (induction xs arbitrary: seen)
  case Nil
  show ?case by simp
next
  case (Cons x xs)
  from filterSeen_keys [of "insert (platformKey x) seen" xs]
  have "platformKey x \<notin> platformKey ` set (filterSeen (insert (platformKey x) seen) xs)"
    by auto
  with Cons show ?case
    by (simp add: Let_def)
qed

lemma filterSeen_fixed:
  "distinct (map platformKey ys) \<Longrightarrow> platformKey ` set ys \<inter> seen = {} \<Longrightarrow> filterSeen seen ys = ys"
proof (induction ys arbitrary: seen)
  case Nil
  show ?case by simp
next
  case (Cons y ys)
  from Cons.prems have "platformKey y \<notin> seen"
    by auto
  moreover from Cons.prems have "platformKey ` set ys \<inter> insert (platformKey y) seen = {}"
    by auto
  moreover from Cons.prems have "distinct (map platformKey ys)"
    by simp
  ultimately show ?case
    using Cons.IH [of "insert (platformKey y) seen"] by (simp add: Let_def)
qed

lemma filterSeen_first:
  "filter (\<lambda>q. platformKey q = k) (filterSeen seen xs) =
     (if k \<in> seen then []
      else case List.find (\<lambda>q. platformKey q = k) xs of None \<Rightarrow> [] | Some q \<Rightarrow> [q])"
proof (induction xs arbitrary: seen)
  case Nil
  show ?case by simp
next
  case (Cons x xs)
  show ?case
  proof (cases "platformKey x \<in> seen")
    case True
    with Cons [of seen] show ?thesis
      by (auto simp: Let_def)
  next
    case False
    with Cons [of "insert (platformKey x) seen"] show ?thesis
      by (auto simp: Let_def)
  qed
qed

text \<open>
  C10. For every input list, \<open>removeDuplicatePlatforms\<close> returns a subsequence of its input
  (the surviving offers are the input's own, in their original relative order), every
  (platform, type) pair occurs at most once in the output, and the function is idempotent.
\<close>

theorem removeDuplicatePlatforms_subseq_distinct_idem:
  "subseq (removeDuplicatePlatforms xs) xs
   \<and> distinct (map (\<lambda>p. (platform p, type p)) (removeDuplicatePlatforms xs))
   \<and> removeDuplicatePlatforms (removeDuplicatePlatforms xs) = removeDuplicatePlatforms xs"
proof -
  let ?ys = "removeDuplicatePlatforms xs"
  have d: "distinct (map platformKey ?ys)"
    by (simp add: removeDuplicatePlatforms_def filterSeen_distinct)
  have "map platformKey ?ys =
      map (\<lambda>p. (\<lambda>pt. fst pt @ ''-'' @ typeString (snd pt)) (platform p, type p)) ?ys"
    by (simp add: platformKey_def)
  with d have "distinct (map (\<lambda>p. (platform p, type p)) ?ys)"
    using distinct_map_inner [of "\<lambda>pt. fst pt @ ''-'' @ typeString (snd pt)" "\<lambda>p. (platform p, type p)" ?ys]
    by simp
  moreover have "removeDuplicatePlatforms ?ys = ?ys"
    unfolding removeDuplicatePlatforms_def
    by (rule filterSeen_fixed) (simp_all add: filterSeen_distinct)
  moreover have "subseq ?ys xs"
    by (simp add: removeDuplicatePlatforms_def filterSeen_subseq)
  ultimately show ?thesis by simp
qed

lemma sameOffer_key: "sameOffer p = (\<lambda>q. platformKey q = platformKey p)"
  by (rule ext) (simp add: platformKey_eq_iff)

text \<open>
  C2, as the code has it. The identity key is the pair of the platform name exactly as the
  provider wrote it and the offer kind; no normalisation is applied to the name. For every
  list of offers and every offer \<open>p\<close>, if \<open>q\<close> is the first offer of the input with
  \<open>p\<close>'s platform name and offer kind, then \<open>q\<close> is the only offer with that name and kind
  in the output, in the movie scraper and in the series scraper alike.
\<close>

theorem removeDuplicatePlatforms_first_seen_wins:
  "List.find (sameOffer p) xs = Some q \<Longrightarrow>
     filter (sameOffer p) (removeDuplicatePlatforms xs) = [q]
     \<and> filter (sameOffer p) (series_removeDuplicatePlatforms xs) = [q]"
  by (simp add: sameOffer_key removeDuplicatePlatforms_def series_removeDuplicatePlatforms_def
      filterSeen_first)

theorem removeDuplicatePlatforms_first_seen_wins_witness:
  "List.find (sameOffer offerNetflixB) [offerNetflixA, offerNetflixB] = Some offerNetflixA
   \<and> filter (sameOffer offerNetflixB) (removeDuplicatePlatforms [offerNetflixA, offerNetflixB])
       = [offerNetflixA]
   \<and> filter (sameOffer offerNetflixB) (series_removeDuplicatePlatforms [offerNetflixA, offerNetflixB])
       = [offerNetflixA]"
proof -
  have h: "List.find (sameOffer offerNetflixB) [offerNetflixA, offerNetflixB] = Some offerNetflixA"
    by (simp add: sameOffer_def offerNetflixA_def offerNetflixB_def)
  show ?thesis
    using h removeDuplicatePlatforms_first_seen_wins [OF h] by simp
qed

text \<open>
  C2 as the specification words it fails: two offers whose platform names agree after
  normalisation of letter case, with the same offer kind, both survive.
\<close>

theorem removeDuplicatePlatforms_not_normalized:
  "toLowerCase (platform offerNetflixA) = toLowerCase (platform offerNETFLIX)
   \<and> type offerNetflixA = type offerNETFLIX
   \<and> removeDuplicatePlatforms [offerNetflixA, offerNETFLIX] = [offerNetflixA, offerNETFLIX]
   \<and> series_removeDuplicatePlatforms [offerNetflixA, offerNETFLIX] = [offerNetflixA, offerNETFLIX]"
  by code_simp

section \<open>Properties of link validation\<close>




section \<open>Properties of the retry and proxy layer\<close>

lemma retryLoop_3: "retryLoop get 3 lastError st = (Inl lastError, [], st)"
  by (subst retryLoop.simps) (simp add: maxRetries_def)

lemma retryLoop_2:
  "retryLoop get 2 lastError st =
     (case getNextProxy st of
        (proxy, st1) \<Rightarrow>
          (case get 2 (proxyForAttempt proxy 2) of
             Inr response \<Rightarrow> (Inr response, [Fire 2 (proxyForAttempt proxy 2)], st1)
           | Inl error \<Rightarrow> (Inl (Some error), [Fire 2 (proxyForAttempt proxy 2)], st1)))"
  by (subst retryLoop.simps) (simp add: retryLoop_3 maxRetries_def split: prod.splits sum.splits)

lemma retryLoop_1:
  "retryLoop get 1 lastError st =
     (case getNextProxy st of
        (proxy, st1) \<Rightarrow>
          (case get 1 (proxyForAttempt proxy 1) of
             Inr response \<Rightarrow> (Inr response, [Fire 1 (proxyForAttempt proxy 1)], st1)
           | Inl error \<Rightarrow>
               (case retryLoop get 2 (Some error) st1 of
                  (res, evs, st2) \<Rightarrow>
                    (res, Fire 1 (proxyForAttempt proxy 1) # Wait 4000 # evs, st2))))"
  by (subst retryLoop.simps)
    (simp add: maxRetries_def numeral_2_eq_2 [symmetric] split: prod.splits sum.splits)

lemma retryLoop_0:
  "retryLoop get 0 lastError st =
     (case getNextProxy st of
        (proxy, st1) \<Rightarrow>
          (case get 0 None of
             Inr response \<Rightarrow> (Inr response, [Fire 0 None], st1)
           | Inl error \<Rightarrow>
               (case retryLoop get 1 (Some error) st1 of
                  (res, evs, st2) \<Rightarrow> (res, Fire 0 None # Wait 2000 # evs, st2))))"
  by (subst retryLoop.simps)
    (simp add: maxRetries_def proxyForAttempt_def split: prod.splits sum.splits)

text \<open>
  C5. A wrapped call fires at most three requests. Attempt 0 is fired at once; attempt 1 is
  fired after a wait of 2000 ms and attempt 2 after a wait of 4000 ms, that is 2000 ms times
  the attempt number, and nothing else is waited for. If every request that was fired
  failed, three were fired and the call fails with the error of attempt 2, the last one.
\<close>

theorem makeProxyRequest_retry_policy:
  assumes "makeProxyRequest get st = (res, evs, st')"
  shows "(\<exists>u1 u2.
            evs = [Fire 0 None]
            \<or> evs = [Fire 0 None, Wait (2000 * 1), Fire 1 u1]
            \<or> evs = [Fire 0 None, Wait (2000 * 1), Fire 1 u1, Wait (2000 * 2), Fire 2 u2])
         \<and> length (filter (\<lambda>ev. \<exists>k u. ev = Fire k u) evs) \<le> 3
         \<and> ((\<forall>k u. Fire k u \<in> set evs \<longrightarrow> isl (get k u)) \<longrightarrow>
              (\<exists>u e. last evs = Fire 2 u \<and> get 2 u = Inl e \<and> res = Inl (Some e)))"
  using assms
  unfolding makeProxyRequest_def retryLoop_0 retryLoop_1 retryLoop_2
  by (auto split: prod.splits sum.splits)

theorem makeProxyRequest_retry_policy_witness:
  "makeProxyRequest networkDown poolOfThree =
     (Inl (Some ''ECONNREFUSED''),
      [Fire 0 None, Wait 2000, Fire 1 (Some ''10.0.0.2:80''), Wait 4000, Fire 2 (Some ''10.0.0.3:80'')],
      poolOfThree)
   \<and> (\<exists>u e. last [Fire 0 None, Wait 2000, Fire 1 (Some ''10.0.0.2:80''), Wait 4000,
                    Fire 2 (Some ''10.0.0.3:80'')] = Fire 2 u
          \<and> networkDown 2 u = Inl e \<and> (Inl (Some ''ECONNREFUSED'') :: string option + unit) = Inl (Some e))"
proof -
  have h: "makeProxyRequest networkDown poolOfThree =
     (Inl (Some ''ECONNREFUSED''),
      [Fire 0 None, Wait 2000, Fire 1 (Some ''10.0.0.2:80''), Wait 4000, Fire 2 (Some ''10.0.0.3:80'')],
      poolOfThree)"
    by code_simp
  have f: "\<forall>k u. Fire k u \<in> set [Fire 0 None, Wait 2000, Fire 1 (Some ''10.0.0.2:80''), Wait 4000,
      Fire 2 (Some ''10.0.0.3:80'')] \<longrightarrow> isl (networkDown k u)"
    by (simp add: networkDown_def)
  show ?thesis
    using h f makeProxyRequest_retry_policy [OF h] by blast
qed

text \<open>
  C6 at a concrete run. The pool holds three proxies and the cursor is at its start; two
  wrapped calls follow one another and every request fails. Attempt 0 of each call goes
  direct, yet it has already taken a proxy from the pool and moved the cursor, so that proxy
  is passed over. Four requests go through a proxy (M = 4, P = 3, and 4 div 3 = 1), the
  first proxy of the pool is used by none of them, and the cursor has moved six times.
\<close>

theorem proxy_rotation_passes_over_entry:
  "fst (consecutiveCalls 2 networkDown poolOfThree) =
     [Fire 0 None, Wait 2000, Fire 1 (Some ''10.0.0.2:80''), Wait 4000, Fire 2 (Some ''10.0.0.3:80''),
      Fire 0 None, Wait 2000, Fire 1 (Some ''10.0.0.2:80''), Wait 4000, Fire 2 (Some ''10.0.0.3:80'')]
   \<and> proxiesUsed (fst (consecutiveCalls 2 networkDown poolOfThree)) =
       [''10.0.0.2:80'', ''10.0.0.3:80'', ''10.0.0.2:80'', ''10.0.0.3:80'']
   \<and> length (proxiesUsed (fst (consecutiveCalls 2 networkDown poolOfThree)))
         div length (proxyList poolOfThree) = 1
   \<and> count_list (proxiesUsed (fst (consecutiveCalls 2 networkDown poolOfThree))) ''10.0.0.1:80'' = 0"
  by code_simp

section \<open>Properties of the region iterator\<close>

lemma setProperty_new: "k \<notin> fst ` set kvs \<Longrightarrow> setProperty kvs k v = kvs @ [(k, v)]"
  by (induction kvs) auto

lemma regionLoop_fresh:
  "distinct rs \<Longrightarrow> set rs \<inter> fst ` set result = {} \<Longrightarrow>
     regionLoop providers rs result evs =
       (result @ map (\<lambda>region. (region, fst (processRegion (providers region)))) rs,
        evs @ concat (map (\<lambda>region. Query region # snd (processRegion (providers region))) rs))"
proof (induction rs arbitrary: result evs)
  case Nil
  show ?case by simp
next
  case (Cons r rs)
  from Cons.prems have fresh: "r \<notin> fst ` set result"
    by auto
  obtain entry evs' where pr: "processRegion (providers r) = (entry, evs')"
    by (cases "processRegion (providers r)")
  from Cons.prems have "distinct rs" and "set rs \<inter> fst ` set (result @ [(r, entry)]) = {}"
    by auto
  from Cons.IH [OF this, of "evs @ Query r # evs'"] show ?case
    by (simp add: pr setProperty_new [OF fresh])
qed

lemma distinct_regions: "distinct regions"
  by (simp add: regions_def)

lemma getStreamingAvailability_eq:
  "getStreamingAvailability providers =
     (map (\<lambda>region. (region, fst (processRegion (providers region)))) regions,
      concat (map (\<lambda>region. Query region # snd (processRegion (providers region))) regions))"
  unfolding getStreamingAvailability_def
  using regionLoop_fresh [OF distinct_regions, of "[]" providers "[]"] by simp







section \<open>Properties of slugs\<close>

lemma dash_not_alnum: "\<not> isLowerAlnum CHR ''-''"
  by (simp add: isLowerAlnum_def)

lemma collapseRuns_True:
  "collapseRuns True s = collapseRuns False (dropWhile (\<lambda>d. \<not> isLowerAlnum d) s)"
  by (induction s) auto

lemma collapseRuns_replace: "collapseRuns False s = replaceNonAlnumRuns s"
  by (induction s rule: replaceNonAlnumRuns.induct) (auto simp: collapseRuns_True)

lemma noDoubleDash_Cons:
  "noDoubleDash r \<Longrightarrow> r = [] \<or> hd r \<noteq> CHR ''-'' \<or> a \<noteq> CHR ''-'' \<Longrightarrow> noDoubleDash (a # r)"
  by (cases r) auto

lemma noDoubleDash_tl: "noDoubleDash (c # cs) \<Longrightarrow> noDoubleDash cs"
  by (cases cs) auto

lemma replace_after_run:
  "replaceNonAlnumRuns (dropWhile (\<lambda>d. \<not> isLowerAlnum d) cs) = []
   \<or> hd (replaceNonAlnumRuns (dropWhile (\<lambda>d. \<not> isLowerAlnum d) cs)) \<noteq> CHR ''-''"
proof (cases "dropWhile (\<lambda>d. \<not> isLowerAlnum d) cs")
  case Nil
  then have "replaceNonAlnumRuns (dropWhile (\<lambda>d. \<not> isLowerAlnum d) cs) = replaceNonAlnumRuns []"
    by (rule arg_cong)
  then show ?thesis by simp
next
  case (Cons d ds)
  then have "isLowerAlnum d"
    using hd_dropWhile [of "\<lambda>d. \<not> isLowerAlnum d" cs] by auto
  with Cons show ?thesis
    using dash_not_alnum by auto
qed

lemma noDoubleDash_replace: "noDoubleDash (replaceNonAlnumRuns s)"
proof (induction s rule: replaceNonAlnumRuns.induct)
  case 1
  show ?case by simp
next
  case (2 c cs)
  show ?case
  proof (cases "isLowerAlnum c")
    case True
    with 2 have "noDoubleDash (replaceNonAlnumRuns cs)"
      by simp
    moreover from True have "c \<noteq> CHR ''-''"
      using dash_not_alnum by auto
    ultimately show ?thesis
      using True by (simp add: noDoubleDash_Cons)
  next
    case False
    with 2 have "noDoubleDash (replaceNonAlnumRuns (dropWhile (\<lambda>d. \<not> isLowerAlnum d) cs))"
      by simp
    then have "noDoubleDash (CHR ''-'' # replaceNonAlnumRuns (dropWhile (\<lambda>d. \<not> isLowerAlnum d) cs))"
      using replace_after_run [of cs] by (intro noDoubleDash_Cons) auto
    with False show ?thesis
      by simp
  qed
qed

lemma noDoubleDash_end: "noDoubleDash (ys @ [y, z]) \<Longrightarrow> y \<noteq> CHR ''-'' \<or> z \<noteq> CHR ''-''"
proof (induction ys)
  case Nil
  then show ?case by simp
next
  case (Cons a ys)
  from Cons.prems have "noDoubleDash (ys @ [y, z])"
    using noDoubleDash_tl [of a "ys @ [y, z]"] by simp
  then show ?case
    by (rule Cons.IH)
qed

lemma trim_leading:
  "noDoubleDash r \<Longrightarrow>
     dropWhile (\<lambda>c. c = CHR ''-'') r =
       (case r of [] \<Rightarrow> [] | c # cs \<Rightarrow> if c = CHR ''-'' then cs else c # cs)"
proof (cases r)
  case Nil
  then show ?thesis by simp
next
  case (Cons c cs)
  assume "noDoubleDash r"
  with Cons show ?thesis
    by (cases cs) auto
qed

lemma trim_trailing:
  "noDoubleDash s \<Longrightarrow>
     rev (dropWhile (\<lambda>c. c = CHR ''-'') (rev s)) =
       (if s \<noteq> [] \<and> last s = CHR ''-'' then butlast s else s)"
proof (cases s rule: rev_cases)
  case Nil
  then show ?thesis by simp
next
  case (snoc xs x)
  assume nd: "noDoubleDash s"
  show ?thesis
  proof (cases "x = CHR ''-''")
    case False
    with snoc show ?thesis by simp
  next
    case True
    show ?thesis
    proof (cases xs rule: rev_cases)
      case Nil
      with snoc True show ?thesis by simp
    next
      case (snoc ys y)
      with \<open>s = xs @ [x]\<close> nd have "noDoubleDash (ys @ [y, x])"
        by simp
      then have "y \<noteq> CHR ''-''"
        using True noDoubleDash_end by blast
      with snoc \<open>s = xs @ [x]\<close> True show ?thesis
        by (simp add: butlast_append)
    qed
  qed
qed

lemma makeSlug_spec_slug: "makeSlug text = spec_slug text"
proof -
  let ?r = "replaceNonAlnumRuns (toLowerCase text)"
  let ?s1 = "case ?r of [] \<Rightarrow> [] | c # cs \<Rightarrow> if c = CHR ''-'' then cs else c # cs"
  have nd: "noDoubleDash ?r"
    by (rule noDoubleDash_replace)
  have lead: "dropWhile (\<lambda>c. c = CHR ''-'') ?r = ?s1"
    using nd by (rule trim_leading)
  have "noDoubleDash ?s1"
    using nd noDoubleDash_tl by (cases ?r) auto
  then have "rev (dropWhile (\<lambda>c. c = CHR ''-'') (rev ?s1)) =
      (if ?s1 \<noteq> [] \<and> last ?s1 = CHR ''-'' then butlast ?s1 else ?s1)"
    by (rule trim_trailing)
  then show ?thesis
    by (simp add: makeSlug_def spec_slug_def stripEdgeDashes_def trimSeparators_def
        collapseRuns_replace lead Let_def)
qed

section \<open>Properties of the merge step\<close>

lemma scrapeMovieData_returns: "\<exists>r. scrapeMovieData h p request = Inr r"
  by (simp add: scrapeMovieData_def)

text \<open>
  C3. The required fields of a request reach the record unchanged, whatever the providers
  answered: title and year of a movie, the title of a series, title and artist of a music
  track, the title of a book. This holds for the merge functions on any settled results,
  and so for the records that \<open>scrapeMovieData\<close> and \<open>scrapeSeriesData\<close> return.
\<close>

theorem required_fields_copied:
  "MovieResponse.title (combineMovieData h mreq mt mo ms) = MovieRequest.title mreq
   \<and> MovieResponse.year (combineMovieData h mreq mt mo ms) = MovieRequest.year mreq
   \<and> SeriesResponse.title (combineSeriesData h sreq st ss) = SeriesRequest.title sreq
   \<and> MusicResponse.title (combineMusicData h areq ap al as) = MusicRequest.title areq
   \<and> MusicArtist.name (MusicResponse.artist (combineMusicData h areq ap al as)) = MusicRequest.artist areq
   \<and> BookResponse.title (combineBookData h breq bg br ba) = BookRequest.title breq
   \<and> map_sum id MovieResponse.title (scrapeMovieData h mp mreq) = Inr (MovieRequest.title mreq)
   \<and> map_sum id MovieResponse.year (scrapeMovieData h mp mreq) = Inr (MovieRequest.year mreq)
   \<and> map_sum id SeriesResponse.title (scrapeSeriesData h sp sreq) = Inr (SeriesRequest.title sreq)"
proof -
  have m: "MovieResponse.title (combineMovieData h mreq t1 t2 t3) = MovieRequest.title mreq
      \<and> MovieResponse.year (combineMovieData h mreq t1 t2 t3) = MovieRequest.year mreq" for t1 t2 t3
    by (simp add: combineMovieData_def Let_def)
  have s: "SeriesResponse.title (combineSeriesData h sreq t1 t2) = SeriesRequest.title sreq" for t1 t2
    by (simp add: combineSeriesData_def Let_def)
  have a: "MusicResponse.title (combineMusicData h areq ap al as) = MusicRequest.title areq
      \<and> MusicArtist.name (MusicResponse.artist (combineMusicData h areq ap al as)) = MusicRequest.artist areq"
    by (simp add: combineMusicData_def Let_def)
  have b: "BookResponse.title (combineBookData h breq bg br ba) = BookRequest.title breq"
    by (simp add: combineBookData_def Let_def)
  show ?thesis
    using m s a b by (simp add: scrapeMovieData_def scrapeSeriesData_def)
qed

lemma slug_fields:
  "MovieResponse.slug (combineMovieData h mreq mt mo ms) = makeSlug (MovieRequest.title mreq)"
  "SeriesResponse.slug (combineSeriesData h sreq st ss) = makeSlug (SeriesRequest.title sreq)"
  "BookResponse.slug (combineBookData h breq bg br ba) = makeSlug (BookRequest.title breq)"
  "MusicResponse.slug (combineMusicData h areq ap al as) =
     makeSlug (MusicRequest.title areq @ ''-'' @ MusicRequest.artist areq)"
  by (simp_all add: combineMovieData_def combineSeriesData_def combineBookData_def
      combineMusicData_def Let_def)

text \<open>
  C8, as the code has it. In a movie, a series and a book record the slug is a function of
  the request title alone: the title lower-cased, every maximal run of characters other
  than \<open>a-z\<close> and \<open>0-9\<close> collapsed to one \<open>-\<close> (a letter outside ASCII is part of such a
  run), and the separators at the start and the end trimmed; the providers' data does not
  enter it. In a music record the same derivation is applied to the title, a \<open>-\<close> and the
  artist.
\<close>

theorem slug_derivation:
  "MovieResponse.slug (combineMovieData h mreq mt mo ms) = spec_slug (MovieRequest.title mreq)
   \<and> SeriesResponse.slug (combineSeriesData h sreq st ss) = spec_slug (SeriesRequest.title sreq)
   \<and> BookResponse.slug (combineBookData h breq bg br ba) = spec_slug (BookRequest.title breq)
   \<and> MusicResponse.slug (combineMusicData h areq ap al as) =
       spec_slug (MusicRequest.title areq @ ''-'' @ MusicRequest.artist areq)"
  by (simp add: slug_fields makeSlug_spec_slug)

theorem slug_derivation_witness:
  "MovieResponse.slug (combineMovieData exampleHost theMatrix (Fulfilled None) (Fulfilled None) (Fulfilled []))
     = ''the-matrix''
   \<and> MovieResponse.slug (combineMovieData exampleHost istanbul (Fulfilled None) (Fulfilled None) (Fulfilled []))
     = ''i-stanbul''
   \<and> MovieResponse.slug (combineMovieData exampleHost kelvin (Fulfilled None) (Fulfilled None) (Fulfilled []))
     = ''kelvin''"
proof -
  have "spec_slug (MovieRequest.title theMatrix) = ''the-matrix''"
    "spec_slug (MovieRequest.title istanbul) = ''i-stanbul''"
    "spec_slug (MovieRequest.title kelvin) = ''kelvin''"
    by code_simp+
  then show ?thesis
    using slug_derivation [of exampleHost theMatrix "Fulfilled None" "Fulfilled None" "Fulfilled []"]
      slug_derivation [of exampleHost istanbul "Fulfilled None" "Fulfilled None" "Fulfilled []"]
      slug_derivation [of exampleHost kelvin "Fulfilled None" "Fulfilled None" "Fulfilled []"]
    by simp
qed

text \<open>
  C8 as the specification words it fails twice. Two music requests with the same title and
  different artists get different slugs, so the slug is not made from the title alone. And
  a letter that is not one of \<open>a-z\<close>, here the e with acute accent of the movie title,
  becomes a separator, although it is alphanumeric.
\<close>

theorem slug_not_title_alone_nor_alphanumeric:
  "MusicRequest.title yesterdayBeatles = MusicRequest.title yesterdayBoyz
   \<and> MusicResponse.slug (combineMusicData exampleHost yesterdayBeatles (Fulfilled None) (Fulfilled None)
         (Rejected ''timeout''))
       = ''yesterday-the-beatles''
   \<and> MusicResponse.slug (combineMusicData exampleHost yesterdayBoyz (Fulfilled None) (Fulfilled None)
         (Rejected ''timeout''))
       = ''yesterday-boyz-ii-men''
   \<and> MovieResponse.slug (combineMovieData exampleHost amelie (Fulfilled None) (Fulfilled None) (Fulfilled []))
       = ''am-lie''"
proof -
  have "makeSlug ''Yesterday-The Beatles'' = ''yesterday-the-beatles''"
    by code_simp
  moreover have "makeSlug ''Yesterday-Boyz II Men'' = ''yesterday-boyz-ii-men''"
    by code_simp
  moreover have "makeSlug (MovieRequest.title amelie) = ''am-lie''"
    by code_simp
  ultimately show ?thesis
    by (simp add: slug_fields yesterdayBeatles_def yesterdayBoyz_def)
qed

lemma regions_no_streaming_key:
  "map_of (map (\<lambda>region. (region, f region)) regions) ''streaming'' = None"
  by (simp add: regions_def)

lemma processRegion_down:
  "processRegion (regionProviders movieProvidersDown region) = (emptyAvailability, [Sleep 1000])"
  by (simp add: movieProvidersDown_def processRegion_def emptyAvailability_def
      removeDuplicatePlatforms_def Let_def)

text \<open>
  C1 at the example of the specification. For every request and all providers
  \<open>scrapeMovieData\<close> returns a record. For \<open>{title: "The Matrix", year: 1999}\<close> with no
  provider yielding data the record has the title, the year, the slug \<open>the-matrix\<close> and no
  genres; its \<open>availableOn\<close> is the object keyed by the ten region codes, each with empty
  lists, so that \<open>availableOn.streaming\<close> is undefined and not the empty array.
\<close>

theorem scrapeMovieData_the_matrix:
  "(\<exists>r. scrapeMovieData h p request = Inr r)
   \<and> (\<exists>r. scrapeMovieData h movieProvidersDown theMatrix = Inr r
        \<and> MovieResponse.title r = ''The Matrix''
        \<and> MovieResponse.year r = Num 1999
        \<and> MovieResponse.slug r = ''the-matrix''
        \<and> MovieResponse.genres r = []
        \<and> MovieResponse.availableOn r =
            RegionMap (map (\<lambda>region. (region, \<lparr>streaming = [], purchase = []\<rparr>)) regions)
        \<and> availableOn_streaming (MovieResponse.availableOn r) = Undefined)"
proof -
  have slug: "makeSlug ''The Matrix'' = ''the-matrix''"
    by code_simp
  have none: "getTMDBData movieProvidersDown = None" "getOMDBData movieProvidersDown = None"
    by (simp_all add: getTMDBData_def getOMDBData_def movieProvidersDown_def)
  have avail: "fst (getStreamingAvailability (regionProviders movieProvidersDown)) =
      map (\<lambda>region. (region, \<lparr>streaming = [], purchase = []\<rparr>)) regions"
    by (simp add: getStreamingAvailability_eq processRegion_down emptyAvailability_def)
  have "MovieResponse.title (combineMovieData h theMatrix (Fulfilled None) (Fulfilled None) s) = ''The Matrix''
      \<and> MovieResponse.year (combineMovieData h theMatrix (Fulfilled None) (Fulfilled None) s) = Num 1999
      \<and> MovieResponse.slug (combineMovieData h theMatrix (Fulfilled None) (Fulfilled None) s) = ''the-matrix''
      \<and> MovieResponse.genres (combineMovieData h theMatrix (Fulfilled None) (Fulfilled None) s) = []" for s
    by (simp add: combineMovieData_def Let_def theMatrix_def slug)
  moreover have "MovieResponse.availableOn (combineMovieData h theMatrix t1 t2 (Fulfilled v)) = RegionMap v"
    for t1 t2 v
    by (simp add: combineMovieData_def Let_def)
  ultimately show ?thesis
    by (simp add: scrapeMovieData_def none avail regions_no_streaming_key)
qed

end
